theory Spec2Isabelle
  imports Main
begin

section \<open>The events chart: time range, zoom history and deferred commit\<close>

text \<open>
  A shallow embedding of \<^verbatim>\<open>eventsChart.jsx\<close>, the \<^verbatim>\<open>EventsChart\<close> React component.
  The component keeps three instance fields besides its props: the zoom history
  (\<^verbatim>\<open>this.history\<close>), the string-normalised copy of the current range
  (\<^verbatim>\<open>this.currentPeriod\<close>) and the deferred commit (\<^verbatim>\<open>this.zooming\<close>). Its handlers are
  modelled as functions on a record of these fields; the calls it makes to its
  collaborators (\<^verbatim>\<open>props.onZoom\<close>, \<^verbatim>\<open>props.actions.updateParams\<close>) are appended to a
  trace kept in the same record, so that their order and arguments can be stated.
\<close>

subsection \<open>JavaScript values\<close>

text \<open>
  The values that flow through the range fields: \<^verbatim>\<open>undefined\<close>, \<^verbatim>\<open>null\<close>, a string, a
  \<^verbatim>\<open>Date\<close> object (its identity and its time value in milliseconds) and a valid moment
  object (its instant in milliseconds). Invalid \<^verbatim>\<open>Date\<close> objects are not modelled.
\<close>

datatype jsval =
    JUndefined
  | JNull
  | JString string
  | JDate nat int
  | JMoment int

text \<open>JavaScript truthiness, as read by \<^verbatim>\<open>date ? ... : null\<close> and \<^verbatim>\<open>nextProps.zoom || ...\<close>.\<close>

fun truthy :: "jsval \<Rightarrow> bool" where
  "truthy JUndefined = False"
| "truthy JNull = False"
| "truthy (JString s) = (s \<noteq> [])"
| "truthy (JDate r t) = True"
| "truthy (JMoment t) = True"

text \<open>
  An object with plain-valued properties is the list of its own properties, name and value,
  in insertion order (no name twice); reading a property that the object does not have
  gives \<^verbatim>\<open>undefined\<close>.
\<close>

type_synonym jsobj = "(string \<times> jsval) list"

definition getprop :: "jsobj \<Rightarrow> string \<Rightarrow> jsval" where
  "getprop obj k = (case map_of obj k of None \<Rightarrow> JUndefined | Some v \<Rightarrow> v)"

text \<open>\<^verbatim>\<open>s.endsWith(suffix)\<close>.\<close>

definition endsWith :: "string \<Rightarrow> string \<Rightarrow> bool" where
  "endsWith s suffix =
     (length suffix \<le> length s \<and> drop (length s - length suffix) s = suffix)"

subsection \<open>The moment library\<close>

text \<open>
  The date library is not part of the component. What the component needs of it is taken
  as a parameter: the formatter of a valid instant under
  \<^verbatim>\<open>moment.HTML5_FMT.DATETIME_LOCAL_SECONDS\<close> in UTC, the two string parsers
  (\<^verbatim>\<open>moment.utc(s)\<close> and \<^verbatim>\<open>moment(s)\<close>, \<open>None\<close> for an invalid moment) and the clock read by
  \<^verbatim>\<open>moment(undefined)\<close>, one reading for the calls of one handler.
\<close>

record momentlib =
  format_seconds :: "int \<Rightarrow> string"
  parse_utc :: "string \<Rightarrow> int option"
  parse_local :: "string \<Rightarrow> int option"
  now :: int

text \<open>\<^verbatim>\<open>moment.utc(x)\<close> and \<^verbatim>\<open>moment(x)\<close>: the instant, or \<open>None\<close> for an invalid moment.\<close>

fun moment_utc :: "momentlib \<Rightarrow> jsval \<Rightarrow> int option" where
  "moment_utc lib JUndefined = Some (now lib)"
| "moment_utc lib JNull = None"
| "moment_utc lib (JString s) = parse_utc lib s"
| "moment_utc lib (JDate r t) = Some t"
| "moment_utc lib (JMoment t) = Some t"

fun moment_local :: "momentlib \<Rightarrow> jsval \<Rightarrow> int option" where
  "moment_local lib JUndefined = Some (now lib)"
| "moment_local lib JNull = None"
| "moment_local lib (JString s) = parse_local lib s"
| "moment_local lib (JDate r t) = Some t"
| "moment_local lib (JMoment t) = Some t"

text \<open>\<^verbatim>\<open>m.format(DATETIME_LOCAL_SECONDS)\<close>: an invalid moment formats as \<^verbatim>\<open>Invalid date\<close>.\<close>

definition format :: "momentlib \<Rightarrow> int option \<Rightarrow> string" where
  "format lib m = (case m of None \<Rightarrow> ''Invalid date'' | Some t \<Rightarrow> format_seconds lib t)"

text \<open>
  \<^verbatim>\<open>a.diff(b, 'hours')\<close>: \<^verbatim>\<open>NaN\<close> (here \<open>None\<close>) when either moment is invalid, else the
  difference in milliseconds divided by 36e5 and truncated towards zero.
\<close>

definition diff_hours :: "int option \<Rightarrow> int option \<Rightarrow> int option" where
  "diff_hours a b =
     (case a of None \<Rightarrow> None
      | Some x \<Rightarrow>
        (case b of None \<Rightarrow> None
         | Some y \<Rightarrow>
           Some (if x - y < 0 then - ((y - x) div 3600000) else (x - y) div 3600000)))"

subsection \<open>Module-level helpers\<close>

text \<open>\<^verbatim>\<open>dateComparator\<close>: decides for two dates, \<open>None\<close> (\<^verbatim>\<open>undefined\<close>) otherwise.\<close>

fun dateComparator :: "jsval \<Rightarrow> jsval \<Rightarrow> bool option" where
  "dateComparator (JDate r t) (JDate r' t') = Some (t = t')"
| "dateComparator v w = None"

text \<open>\<^verbatim>\<open>getDate\<close>.\<close>

definition getDate :: "momentlib \<Rightarrow> jsval \<Rightarrow> jsval" where
  "getDate lib date = (if truthy date then JString (format lib (moment_utc lib date)) else JNull)"

subsection \<open>The lodash helpers\<close>

text \<open>
  lodash is not part of the component either. The functions the render gate calls
  (\<^verbatim>\<open>pick\<close>, \<^verbatim>\<open>isDate\<close>, \<^verbatim>\<open>isEqualWith\<close>) are modelled as the library documents them, on the
  values above.

  \<^verbatim>\<open>pick(object, keys)\<close>: a new object with those of the listed properties that the object
  has, in the order of the list.
\<close>

definition pick :: "jsobj \<Rightarrow> string list \<Rightarrow> jsobj" where
  "pick obj ks = List.map_filter (\<lambda>k. map_option (Pair k) (map_of obj k)) ks"

text \<open>
  The default comparison of \<^verbatim>\<open>isEqual\<close> on two values: identical values (\<^verbatim>\<open>===\<close>) are
  equal, two dates are equal when their time values are, and values of different kinds
  differ. A moment object is compared by its fields, of which the instant is the one
  modelled.
\<close>

fun strictEquals :: "jsval \<Rightarrow> jsval \<Rightarrow> bool" where
  "strictEquals JUndefined JUndefined = True"
| "strictEquals JNull JNull = True"
| "strictEquals (JString a) (JString b) = (a = b)"
| "strictEquals (JDate r t) (JDate r' t') = (r = r')"
| "strictEquals v w = False"

fun baseIsEqual :: "jsval \<Rightarrow> jsval \<Rightarrow> bool" where
  "baseIsEqual (JDate r t) (JDate r' t') = (r = r' \<or> t = t')"
| "baseIsEqual (JMoment t) (JMoment t') = (t = t')"
| "baseIsEqual v w = strictEquals v w"

text \<open>
  \<^verbatim>\<open>isEqualWith(a, b, customizer)\<close> on two objects with plain-valued properties. The
  customizer is asked about the two objects first and, as they are not dates, does not
  decide. Then the objects are equal when they have as many properties, every property
  of the first is a property of the second, and the two values are equal for the
  customizer where it decides, for the default comparison where it returns \<^verbatim>\<open>undefined\<close>.
\<close>

definition isEqualWith :: "jsobj \<Rightarrow> jsobj \<Rightarrow> (jsval \<Rightarrow> jsval \<Rightarrow> bool option) \<Rightarrow> bool" where
  "isEqualWith a b customizer =
     (length a = length b \<and>
      list_all (\<lambda>(k, v).
        (case map_of b k of
           None \<Rightarrow> False
         | Some w \<Rightarrow> (case customizer v w of Some res \<Rightarrow> res | None \<Rightarrow> baseIsEqual v w))) a)"

text \<open>\<^verbatim>\<open>isEqualWithDates\<close>.\<close>

definition isEqualWithDates :: "jsobj \<Rightarrow> jsobj \<Rightarrow> bool" where
  "isEqualWithDates a b = isEqualWith a b dateComparator"

subsection \<open>Props and instance state\<close>

text \<open>
  The props: the plain-valued ones (\<^verbatim>\<open>period\<close>, \<^verbatim>\<open>start\<close>, \<^verbatim>\<open>end\<close>, \<^verbatim>\<open>zoom\<close>, \<^verbatim>\<open>utc\<close>, ...) as
  an object, and for the two callbacks whether they can be called: \<open>onZoom\<close> says that
  \<^verbatim>\<open>props.onZoom\<close> is a function, \<open>actions\<close> that \<^verbatim>\<open>props.actions.updateParams\<close> is one.
  A callback that is called is assumed to return.
\<close>

record props =
  own :: jsobj
  onZoom :: bool
  actions :: bool

text \<open>
  A range object \<^verbatim>\<open>{period, start, end}\<close>: the argument of \<^verbatim>\<open>setPeriod\<close>, the snapshot in
  \<^verbatim>\<open>this.currentPeriod\<close>, an entry of \<^verbatim>\<open>this.history\<close> and the argument of \<^verbatim>\<open>onZoom\<close>.
\<close>

record range =
  period :: jsval
  start :: jsval
  end' :: jsval

text \<open>The calls made to the collaborators, in the order they are made.\<close>

datatype effect =
    OnZoom range
  | UpdateParams (statsPeriod: jsval) (startParam: jsval) (endParam: jsval) (zoomParam: string)

text \<open>
  The arrow function stored in \<^verbatim>\<open>this.zooming\<close> by \<^verbatim>\<open>setPeriod\<close>: the variables it closes
  over. The slot itself is \<^verbatim>\<open>undefined\<close> until the first \<^verbatim>\<open>setPeriod\<close>, then a function,
  and \<^verbatim>\<open>null\<close> once \<^verbatim>\<open>handleChartFinished\<close> has called it.
\<close>

record closure =
  c_period :: jsval
  c_start :: jsval
  c_end :: jsval
  c_startFormatted :: jsval
  c_endFormatted :: jsval

datatype slot = Undefined | Null | Function closure

record state =
  props :: props
  history :: "range list"
  currentPeriod :: range
  zooming :: slot
  effects :: "effect list"

text \<open>
  The one exception the component can raise: a property read on \<^verbatim>\<open>undefined\<close>, or a call
  of something that is not a function. Every such read in the component comes before the
  first assignment of the handler it is in, so the instance state after the exception is
  the state before the call.
\<close>

datatype error = TypeError

subsection \<open>The chart's model\<close>

text \<open>
  What \<^verbatim>\<open>handleDataZoom\<close> reads of \<^verbatim>\<open>chart.getModel().option\<close>: the axes with their range
  markers and the series with their data points, each point an array whose first element
  is the timestamp in milliseconds. A range marker is \<^verbatim>\<open>null\<close>, \<^verbatim>\<open>undefined\<close> or a number.
\<close>

datatype marker = MNull | MUndefined | MNumber int

record axis =
  rangeStart :: marker
  rangeEnd :: marker

record series =
  data :: "(int \<times> int) list"

record chart_option =
  xAxis :: "axis list"
  series :: "series list"

text \<open>
  \<^verbatim>\<open>data[marker]\<close>: the element when the marker is an index of the array, \<^verbatim>\<open>undefined\<close>
  (here \<open>None\<close>) otherwise, also for the keys \<^verbatim>\<open>null\<close> and \<^verbatim>\<open>undefined\<close>.
\<close>

fun element :: "'a list \<Rightarrow> marker \<Rightarrow> 'a option" where
  "element xs (MNumber n) = (if 0 \<le> n \<and> n < int (length xs) then Some (xs ! nat n) else None)"
| "element xs MNull = None"
| "element xs MUndefined = None"

text \<open>
  \<^verbatim>\<open>m.add(1, unit)\<close> and \<^verbatim>\<open>m.subtract(1, unit)\<close> on a UTC moment, for the three units the
  component uses, in milliseconds.
\<close>

datatype unit_of_time = Hour | Day | Second

fun unit_ms :: "unit_of_time \<Rightarrow> int" where
  "unit_ms Hour = 3600000"
| "unit_ms Day = 86400000"
| "unit_ms Second = 1000"

definition add :: "int \<Rightarrow> unit_of_time \<Rightarrow> int \<Rightarrow> int" where
  "add n u t = t + n * unit_ms u"

definition subtract :: "int \<Rightarrow> unit_of_time \<Rightarrow> int \<Rightarrow> int" where
  "subtract n u t = t - n * unit_ms u"

subsection \<open>The component\<close>

text \<open>\<^verbatim>\<open>shouldComponentUpdate(nextProps)\<close>, with \<^verbatim>\<open>this.props\<close> as first argument.\<close>

definition shouldComponentUpdate :: "props \<Rightarrow> props \<Rightarrow> bool" where
  "shouldComponentUpdate this_props nextProps =
     (let periodKeys = [''period'', ''start'', ''end''];
          nextPeriod = pick (own nextProps) periodKeys;
          currentPeriod = pick (own this_props) periodKeys
      in if truthy (getprop (own nextProps) ''zoom'') \<or> isEqualWithDates currentPeriod nextPeriod
         then False
         else True)"

text \<open>\<^verbatim>\<open>useHourlyInterval\<close>. A comparison with \<^verbatim>\<open>NaN\<close> is false.\<close>

definition useHourlyInterval :: "momentlib \<Rightarrow> props \<Rightarrow> bool" where
  "useHourlyInterval lib this_props =
     (let period = getprop (own this_props) ''period'';
          start = getprop (own this_props) ''start'';
          end = getprop (own this_props) ''end''
      in case period of
           JString p \<Rightarrow> endsWith p ''h'' \<or> p = ''1d''
         | _ \<Rightarrow>
           (case diff_hours (moment_local lib end) (moment_local lib start) of
              None \<Rightarrow> False
            | Some d \<Rightarrow> d \<le> 24))"

text \<open>\<^verbatim>\<open>saveCurrentPeriod(props)\<close>, called with the props and with an object literal.\<close>

definition saveCurrentPeriod :: "momentlib \<Rightarrow> jsobj \<Rightarrow> state \<Rightarrow> state" where
  "saveCurrentPeriod lib obj s =
     s\<lparr>currentPeriod :=
         \<lparr>period = getprop obj ''period'',
          start = getDate lib (getprop obj ''start''),
          end' = getDate lib (getprop obj ''end'')\<rparr>\<rparr>"

text \<open>
  The constructor: an empty history, then \<^verbatim>\<open>saveCurrentPeriod(props)\<close>. The fields
  \<^verbatim>\<open>currentPeriod\<close> and \<^verbatim>\<open>zooming\<close> are \<^verbatim>\<open>undefined\<close> before they are first assigned.
\<close>

definition constructor :: "momentlib \<Rightarrow> props \<Rightarrow> state" where
  "constructor lib p =
     saveCurrentPeriod lib (own p)
       \<lparr>props = p, history = [],
        currentPeriod = \<lparr>period = JUndefined, start = JUndefined, end' = JUndefined\<rparr>,
        zooming = Undefined, effects = []\<rparr>"

text \<open>\<^verbatim>\<open>componentDidUpdate\<close>.\<close>

definition componentDidUpdate :: "momentlib \<Rightarrow> state \<Rightarrow> state" where
  "componentDidUpdate lib s = saveCurrentPeriod lib (own (props s)) s"

text \<open>
  \<^verbatim>\<open>setPeriod({period, start, end}, saveHistory)\<close>: it pushes the snapshot when asked to,
  calls \<^verbatim>\<open>onZoom\<close> when there is one, and stores the closure.
\<close>

definition setPeriod :: "momentlib \<Rightarrow> range \<Rightarrow> bool \<Rightarrow> state \<Rightarrow> state" where
  "setPeriod lib r saveHistory s =
     (let startFormatted = getDate lib (start r);
          endFormatted = getDate lib (end' r);
          s1 = (if saveHistory then s\<lparr>history := history s @ [currentPeriod s]\<rparr> else s);
          s2 = (if onZoom (props s1)
                then s1\<lparr>effects := effects s1 @
                       [OnZoom \<lparr>period = period r, start = startFormatted, end' = endFormatted\<rparr>]\<rparr>
                else s1)
      in s2\<lparr>zooming := Function
                \<lparr>c_period = period r, c_start = start r, c_end = end' r,
                 c_startFormatted = startFormatted, c_endFormatted = endFormatted\<rparr>\<rparr>)"

text \<open>
  A call of the stored closure: \<^verbatim>\<open>this.props.actions.updateParams({...})\<close>, which raises
  when there is no such function, then \<^verbatim>\<open>saveCurrentPeriod({period, start, end})\<close>.
\<close>

definition call_zooming :: "momentlib \<Rightarrow> closure \<Rightarrow> state \<Rightarrow> error + state" where
  "call_zooming lib c s =
     (if actions (props s)
      then Inr (saveCurrentPeriod lib
                  [(''period'', c_period c), (''start'', c_start c), (''end'', c_end c)]
                  (s\<lparr>effects := effects s @
                       [UpdateParams (c_period c) (c_startFormatted c) (c_endFormatted c) ''1'']\<rparr>))
      else Inl TypeError)"

text \<open>\<^verbatim>\<open>handleZoomRestore\<close>: \<^verbatim>\<open>setPeriod\<close> is called with one argument, so nothing is pushed.\<close>

definition handleZoomRestore :: "momentlib \<Rightarrow> state \<Rightarrow> state" where
  "handleZoomRestore lib s =
     (if history s = [] then s
      else (setPeriod lib (hd (history s)) False s)\<lparr>history := []\<rparr>)"

text \<open>
  \<^verbatim>\<open>handleDataZoom\<close>. The reads that raise: \<^verbatim>\<open>axis.rangeStart\<close> when there is no first axis,
  \<^verbatim>\<open>firstSeries.data\<close> when there is no first series, and \<^verbatim>\<open>data[marker][0]\<close> when the marker
  is not an index of the data. \<^verbatim>\<open>history.pop()\<close> removes and returns the last entry, and
  returns \<^verbatim>\<open>undefined\<close> on an empty array; an entry is an object, so it is truthy.
\<close>

definition handleDataZoom :: "momentlib \<Rightarrow> chart_option \<Rightarrow> state \<Rightarrow> error + state" where
  "handleDataZoom lib option s =
     (case xAxis option of
        [] \<Rightarrow> Inl TypeError
      | axis # _ \<Rightarrow>
        if rangeStart axis = MNull \<and> rangeEnd axis = MNull
        then (if history s = [] then Inr s
              else Inr (setPeriod lib (last (history s)) False
                          (s\<lparr>history := butlast (history s)\<rparr>)))
        else (case series option of
                [] \<Rightarrow> Inl TypeError
              | firstSeries # _ \<Rightarrow>
                (case element (data firstSeries) (rangeStart axis) of
                   None \<Rightarrow> Inl TypeError
                 | Some p1 \<Rightarrow>
                   (case element (data firstSeries) (rangeEnd axis) of
                      None \<Rightarrow> Inl TypeError
                    | Some p2 \<Rightarrow>
                      (let start = fst p1;
                           end = subtract 1 Second
                                   (add 1 (if useHourlyInterval lib (props s) then Hour else Day)
                                      (fst p2))
                       in Inr (setPeriod lib
                                 \<lparr>period = JNull, start = JMoment start, end' = JMoment end\<rparr>
                                 True s))))))"

text \<open>\<^verbatim>\<open>handleChartFinished\<close>.\<close>

definition handleChartFinished :: "momentlib \<Rightarrow> state \<Rightarrow> error + state" where
  "handleChartFinished lib s =
     (case zooming s of
        Function c \<Rightarrow>
          (case call_zooming lib c s of
             Inl e \<Rightarrow> Inl e
           | Inr s' \<Rightarrow> Inr (s'\<lparr>zooming := Null\<rparr>))
      | _ \<Rightarrow> Inr s)"

subsection \<open>Events\<close>

text \<open>
  What happens to a mounted component. The chart calls the three handlers through
  \<^verbatim>\<open>onEvents\<close>: \<^verbatim>\<open>datazoom\<close>, \<^verbatim>\<open>restore\<close> and \<^verbatim>\<open>finished\<close>; \<^verbatim>\<open>handleZoomRestore\<close> has no
  raising read, so its result is always a state. The parent passes new props: as React
  documents the update of a class component, it asks \<^verbatim>\<open>shouldComponentUpdate\<close> with the old
  props still in place, then assigns the new props in either case, and calls
  \<^verbatim>\<open>componentDidUpdate\<close> only when the answer was \<^verbatim>\<open>true\<close>.
\<close>

datatype event = Datazoom chart_option | Restore | Finished | Props props

fun handle :: "momentlib \<Rightarrow> event \<Rightarrow> state \<Rightarrow> error + state" where
  "handle lib (Datazoom option) s = handleDataZoom lib option s"
| "handle lib Restore s = Inr (handleZoomRestore lib s)"
| "handle lib Finished s = handleChartFinished lib s"
| "handle lib (Props nextProps) s =
     Inr (if shouldComponentUpdate (props s) nextProps
          then componentDidUpdate lib (s\<lparr>props := nextProps\<rparr>)
          else s\<lparr>props := nextProps\<rparr>)"

text \<open>
  The instance state after an event: the handler's result, or the state before the event
  when the handler raised. A sequence of events is handled in order.
\<close>

definition after :: "momentlib \<Rightarrow> event \<Rightarrow> state \<Rightarrow> state" where
  "after lib ev s = (case handle lib ev s of Inl e \<Rightarrow> s | Inr s' \<Rightarrow> s')"

fun run :: "momentlib \<Rightarrow> event list \<Rightarrow> state \<Rightarrow> state" where
  "run lib [] s = s"
| "run lib (ev # evs) s = run lib evs (after lib ev s)"

subsection \<open>Vocabulary of the properties\<close>

text \<open>The external mutations among the calls made so far.\<close>

definition is_commit :: "effect \<Rightarrow> bool" where
  "is_commit e = (case e of UpdateParams p a b z \<Rightarrow> True | OnZoom r \<Rightarrow> False)"

definition commits :: "state \<Rightarrow> effect list" where
  "commits s = filter is_commit (effects s)"

text \<open>
  For a range given to \<^verbatim>\<open>setPeriod\<close>: the closure it stores, the call of \<^verbatim>\<open>onZoom\<close> it makes,
  and the call of \<^verbatim>\<open>updateParams\<close> a closure makes when it is called.
\<close>

definition pending_for :: "momentlib \<Rightarrow> range \<Rightarrow> closure" where
  "pending_for lib r =
     \<lparr>c_period = period r, c_start = start r, c_end = end' r,
      c_startFormatted = getDate lib (start r), c_endFormatted = getDate lib (end' r)\<rparr>"

definition notified :: "momentlib \<Rightarrow> range \<Rightarrow> effect" where
  "notified lib r =
     OnZoom \<lparr>period = period r, start = getDate lib (start r), end' = getDate lib (end' r)\<rparr>"

definition committed :: "closure \<Rightarrow> effect" where
  "committed c = UpdateParams (c_period c) (c_startFormatted c) (c_endFormatted c) ''1''"

text \<open>
  Two shapes of the chart's model: a zoom-in, where there is a first axis and a first
  series and both range markers are indices of its data, and a cleared selection, where
  there is a first axis and both its markers are \<^verbatim>\<open>null\<close>.
\<close>

definition zoom_in :: "chart_option \<Rightarrow> bool" where
  "zoom_in option =
     (case xAxis option of
        [] \<Rightarrow> False
      | axis # _ \<Rightarrow>
        (case series option of
           [] \<Rightarrow> False
         | firstSeries # _ \<Rightarrow>
             element (data firstSeries) (rangeStart axis) \<noteq> None \<and>
             element (data firstSeries) (rangeEnd axis) \<noteq> None))"

definition cleared :: "chart_option \<Rightarrow> bool" where
  "cleared option =
     (case xAxis option of
        [] \<Rightarrow> False
      | axis # _ \<Rightarrow> rangeStart axis = MNull \<and> rangeEnd axis = MNull)"

fun is_zoom_in :: "event \<Rightarrow> bool" where
  "is_zoom_in (Datazoom option) = zoom_in option"
| "is_zoom_in Restore = False"
| "is_zoom_in Finished = False"
| "is_zoom_in (Props p) = False"

text \<open>An event that is neither a restore nor a datazoom with a cleared selection.\<close>

fun no_undo :: "event \<Rightarrow> bool" where
  "no_undo (Datazoom option) = (\<not> cleared option)"
| "no_undo Restore = False"
| "no_undo Finished = True"
| "no_undo (Props p) = True"

subsection \<open>The specification's wording of two functions\<close>

text \<open>
  The render gate as the specification words it: a field is unchanged when both props
  objects lack it, or both have it with values that are equal, two dates being equal when
  their timestamps are and other values when they are the same value.
\<close>

definition spec_date_aware_equal :: "jsval \<Rightarrow> jsval \<Rightarrow> bool" where
  "spec_date_aware_equal v w =
     (case (v, w) of (JDate r t, JDate r' t') \<Rightarrow> t = t' | _ \<Rightarrow> v = w)"

definition spec_field_unchanged :: "jsobj \<Rightarrow> jsobj \<Rightarrow> string \<Rightarrow> bool" where
  "spec_field_unchanged a b k =
     (case (map_of a k, map_of b k) of
        (None, None) \<Rightarrow> True
      | (Some v, Some w) \<Rightarrow> spec_date_aware_equal v w
      | _ \<Rightarrow> False)"

text \<open>
  The interval selector as the specification words it: hourly for a period string that
  ends in \<^verbatim>\<open>h\<close> or is \<^verbatim>\<open>1d\<close>, and for two dates at most 24 hours apart.
\<close>

definition spec_useHourlyInterval :: "props \<Rightarrow> bool" where
  "spec_useHourlyInterval p =
     (case getprop (own p) ''period'' of
        JString q \<Rightarrow> endsWith q ''h'' \<or> q = ''1d''
      | _ \<Rightarrow>
        (case (getprop (own p) ''start'', getprop (own p) ''end'') of
           (JDate r1 t1, JDate r2 t2) \<Rightarrow> t2 - t1 \<le> 24 * 3600000
         | _ \<Rightarrow> False))"

subsection \<open>An instance of the library, and inputs for the examples\<close>

text \<open>
  For the examples the library is instantiated: the formatter writes an instant as
  \<^verbatim>\<open>YYYY-MM-DDTHH:mm:ss\<close> in the proleptic Gregorian calendar (four-digit years), the
  parser reads exactly the strings the formatter writes, the local zone is UTC and the
  clock stands at 2019-01-01T00:00:00.
\<close>

definition civil_from_days :: "int \<Rightarrow> int \<times> int \<times> int" where
  "civil_from_days z0 =
     (let z = z0 + 719468;
          era = z div 146097;
          doe = z mod 146097;
          yoe = (doe - doe div 1460 + doe div 36524 - doe div 146096) div 365;
          doy = doe - (365 * yoe + yoe div 4 - yoe div 100);
          mp = (5 * doy + 2) div 153;
          d = doy - (153 * mp + 2) div 5 + 1;
          m = (if mp < 10 then mp + 3 else mp - 9);
          y = yoe + era * 400 + (if m \<le> 2 then 1 else 0)
      in (y, m, d))"

definition days_from_civil :: "int \<Rightarrow> int \<Rightarrow> int \<Rightarrow> int" where
  "days_from_civil y0 m d =
     (let y = (if m \<le> 2 then y0 - 1 else y0);
          era = y div 400;
          yoe = y mod 400;
          doy = (153 * (if m > 2 then m - 3 else m + 9) + 2) div 5 + d - 1;
          doe = yoe * 365 + yoe div 4 - yoe div 100 + doy
      in era * 146097 + doe - 719468)"

definition digit :: "int \<Rightarrow> char" where
  "digit n = ''0123456789'' ! nat (n mod 10)"

definition digits2 :: "int \<Rightarrow> string" where
  "digits2 n = [digit (n div 10), digit n]"

definition digits4 :: "int \<Rightarrow> string" where
  "digits4 n = [digit (n div 1000), digit (n div 100), digit (n div 10), digit n]"

definition iso_format :: "int \<Rightarrow> string" where
  "iso_format t =
     (let secs = t div 1000;
          r = secs mod 86400
      in case civil_from_days (secs div 86400) of
           (y, m, d) \<Rightarrow>
             digits4 y @ ''-'' @ digits2 m @ ''-'' @ digits2 d @ ''T'' @
             digits2 (r div 3600) @ '':'' @ digits2 (r mod 3600 div 60) @ '':'' @
             digits2 (r mod 60))"

definition digit_value :: "char \<Rightarrow> int option" where
  "digit_value c =
     map_of [(CHR ''0'', 0), (CHR ''1'', 1), (CHR ''2'', 2), (CHR ''3'', 3), (CHR ''4'', 4),
             (CHR ''5'', 5), (CHR ''6'', 6), (CHR ''7'', 7), (CHR ''8'', 8), (CHR ''9'', 9)] c"

fun number :: "int \<Rightarrow> string \<Rightarrow> int option" where
  "number acc [] = Some acc"
| "number acc (c # cs) =
     (case digit_value c of None \<Rightarrow> None | Some v \<Rightarrow> number (10 * acc + v) cs)"

definition iso_parse :: "string \<Rightarrow> int option" where
  "iso_parse s =
     (case (number 0 (take 4 s), number 0 (take 2 (drop 5 s)), number 0 (take 2 (drop 8 s)),
            number 0 (take 2 (drop 11 s)), number 0 (take 2 (drop 14 s)),
            number 0 (take 2 (drop 17 s))) of
        (Some y, Some m, Some d, Some h, Some mi, Some sec) \<Rightarrow>
          (let t = ((days_from_civil y m d * 24 + h) * 60 + mi) * 60000 + sec * 1000
           in if iso_format t = s then Some t else None)
      | _ \<Rightarrow> None)"

definition utc_lib :: momentlib where
  "utc_lib = \<lparr>format_seconds = iso_format, parse_utc = iso_parse, parse_local = iso_parse,
              now = 1546300800000\<rparr>"

text \<open>
  Props with the relative period \<^verbatim>\<open>14d\<close> (a daily chart) and \<^verbatim>\<open>24h\<close> (an hourly chart),
  both callbacks present.
\<close>

definition daily_props :: props where
  "daily_props = \<lparr>own = [(''period'', JString ''14d'')], onZoom = True, actions = True\<rparr>"

definition hourly_props :: props where
  "hourly_props = \<lparr>own = [(''period'', JString ''24h'')], onZoom = True, actions = True\<rparr>"

text \<open>
  The props the parent passes once the range from 2019-01-02T00:00:00 to
  2019-01-03T23:59:59 has been committed: no period, the two dates, and the zoom flag.
\<close>

definition zoomed_props :: props where
  "zoomed_props =
     \<lparr>own = [(''period'', JNull), (''start'', JDate 1 1546387200000),
             (''end'', JDate 2 1546559999000), (''zoom'', JString ''1'')],
      onZoom = True, actions = True\<rparr>"

text \<open>
  A series of three days from 2019-01-01 and one of ten hours from 2019-01-01T00:00:00,
  with the selections used below; a cleared selection; and a selection with one marker
  \<^verbatim>\<open>null\<close>.
\<close>

definition three_days :: series where
  "three_days = \<lparr>data = [(1546300800000, 5), (1546387200000, 7), (1546473600000, 2)]\<rparr>"

definition ten_hours :: series where
  "ten_hours =
     \<lparr>data = [(1546300800000, 1), (1546304400000, 4), (1546308000000, 0), (1546311600000, 2),
              (1546315200000, 8), (1546318800000, 3), (1546322400000, 5), (1546326000000, 1),
              (1546329600000, 6), (1546333200000, 2)]\<rparr>"

definition select_days_1_2 :: chart_option where
  "select_days_1_2 =
     \<lparr>xAxis = [\<lparr>rangeStart = MNumber 1, rangeEnd = MNumber 2\<rparr>], series = [three_days]\<rparr>"

definition select_day_2 :: chart_option where
  "select_day_2 =
     \<lparr>xAxis = [\<lparr>rangeStart = MNumber 2, rangeEnd = MNumber 2\<rparr>], series = [three_days]\<rparr>"

definition select_hours_3_7 :: chart_option where
  "select_hours_3_7 =
     \<lparr>xAxis = [\<lparr>rangeStart = MNumber 3, rangeEnd = MNumber 7\<rparr>], series = [ten_hours]\<rparr>"

definition selection_cleared :: chart_option where
  "selection_cleared =
     \<lparr>xAxis = [\<lparr>rangeStart = MNull, rangeEnd = MNull\<rparr>], series = [three_days]\<rparr>"

definition selection_half_cleared :: chart_option where
  "selection_half_cleared =
     \<lparr>xAxis = [\<lparr>rangeStart = MNull, rangeEnd = MNumber 1\<rparr>], series = [three_days]\<rparr>"

section \<open>Properties\<close>

subsection \<open>What \<^verbatim>\<open>setPeriod\<close> changes\<close>

lemma setPeriod_history:
  "history (setPeriod lib r h s) = (if h then history s @ [currentPeriod s] else history s)"
  by (simp add: setPeriod_def Let_def)

lemma setPeriod_zooming: "zooming (setPeriod lib r h s) = Function (pending_for lib r)"
  by (simp add: setPeriod_def pending_for_def Let_def)

lemma setPeriod_effects:
  "effects (setPeriod lib r h s) = effects s @ (if onZoom (props s) then [notified lib r] else [])"
  by (simp add: setPeriod_def notified_def Let_def)

lemma setPeriod_props: "props (setPeriod lib r h s) = props s"
  by (simp add: setPeriod_def Let_def)

lemma setPeriod_currentPeriod: "currentPeriod (setPeriod lib r h s) = currentPeriod s"
  by (simp add: setPeriod_def Let_def)

lemma commits_history_update: "commits (s\<lparr>history := h\<rparr>) = commits s"
  by (simp add: commits_def)

lemma setPeriod_commits: "commits (setPeriod lib r h s) = commits s"
  by (simp add: commits_def setPeriod_effects notified_def is_commit_def)

subsection \<open>The handlers, case by case\<close>

lemma zoom_in_not_cleared: "zoom_in option \<Longrightarrow> \<not> cleared option"
  by (auto simp: zoom_in_def cleared_def split: list.splits)

lemma zoom_in_setPeriod:
  "zoom_in option \<Longrightarrow> \<exists>r. handleDataZoom lib option s = Inr (setPeriod lib r True s)"
  by (auto simp: zoom_in_def handleDataZoom_def Let_def split: list.splits)

lemma malformed_raises:
  "\<not> zoom_in option \<Longrightarrow> \<not> cleared option \<Longrightarrow> handleDataZoom lib option s = Inl TypeError"
  by (auto simp: zoom_in_def cleared_def handleDataZoom_def Let_def
      split: list.splits option.splits)

lemma back_step:
  "cleared option \<Longrightarrow>
   handleDataZoom lib option s =
     Inr (if history s = [] then s
          else setPeriod lib (last (history s)) False (s\<lparr>history := butlast (history s)\<rparr>))"
  by (auto simp: cleared_def handleDataZoom_def split: list.splits)

lemma after_back:
  "cleared option \<Longrightarrow>
   after lib (Datazoom option) s =
     (if history s = [] then s
      else setPeriod lib (last (history s)) False (s\<lparr>history := butlast (history s)\<rparr>))"
  by (simp add: after_def back_step)

lemma after_finished:
  "after lib Finished s =
     (case zooming s of
        Function c \<Rightarrow>
          if actions (props s)
          then (saveCurrentPeriod lib
                  [(''period'', c_period c), (''start'', c_start c), (''end'', c_end c)]
                  (s\<lparr>effects := effects s @ [committed c]\<rparr>))\<lparr>zooming := Null\<rparr>
          else s
      | _ \<Rightarrow> s)"
  by (simp add: after_def handleChartFinished_def call_zooming_def committed_def
      split: slot.splits)

lemma after_props:
  "after lib (Props nextProps) s =
     (if shouldComponentUpdate (props s) nextProps
      then componentDidUpdate lib (s\<lparr>props := nextProps\<rparr>)
      else s\<lparr>props := nextProps\<rparr>)"
  by (simp add: after_def)

lemma after_no_undo_history:
  assumes "no_undo ev"
  shows "history (after lib ev s) =
           (if is_zoom_in ev then history s @ [currentPeriod s] else history s)"
proof (cases ev)
  case (Datazoom option)
  show ?thesis
  proof (cases "zoom_in option")
    case True
    then obtain r where "handleDataZoom lib option s = Inr (setPeriod lib r True s)"
      using zoom_in_setPeriod by blast
    with True Datazoom show ?thesis by (simp add: after_def setPeriod_history)
  next
    case False
    with assms Datazoom have "handleDataZoom lib option s = Inl TypeError"
      by (simp add: malformed_raises)
    with False Datazoom show ?thesis by (simp add: after_def)
  qed
next
  case Restore
  with assms show ?thesis by simp
next
  case Finished
  then show ?thesis by (simp add: after_finished saveCurrentPeriod_def split: slot.splits)
next
  case (Props p)
  then show ?thesis by (simp add: after_props componentDidUpdate_def saveCurrentPeriod_def)
qed

lemma after_commits:
  "commits (after lib ev s) =
     commits s @ (case ev of
                    Finished \<Rightarrow> (case zooming s of
                                    Function c \<Rightarrow> if actions (props s) then [committed c] else []
                                  | _ \<Rightarrow> [])
                  | _ \<Rightarrow> [])"
proof (cases ev)
  case (Datazoom option)
  show ?thesis
  proof (cases "handleDataZoom lib option s")
    case (Inl e)
    with Datazoom show ?thesis by (simp add: after_def)
  next
    case (Inr s')
    then have "commits s' = commits s"
      by (auto simp: handleDataZoom_def Let_def setPeriod_commits commits_history_update
          split: list.splits if_splits option.splits)
    with Inr Datazoom show ?thesis by (simp add: after_def)
  qed
next
  case Restore
  have "commits (handleZoomRestore lib s) = commits s"
    by (simp add: handleZoomRestore_def commits_history_update setPeriod_commits)
  with Restore show ?thesis by (simp add: after_def)
next
  case Finished
  then show ?thesis
    by (simp add: after_finished commits_def saveCurrentPeriod_def committed_def is_commit_def
        split: slot.splits)
next
  case (Props p)
  then show ?thesis
    by (simp add: after_props componentDidUpdate_def saveCurrentPeriod_def commits_def)
qed

lemma finished_twice: "after lib Finished (after lib Finished s) = after lib Finished s"
  by (simp add: after_finished saveCurrentPeriod_def split: slot.splits)

lemma finished_pending:
  "zooming s = Function c \<Longrightarrow> actions (props s) \<Longrightarrow>
   handleChartFinished lib s =
     Inr ((saveCurrentPeriod lib
             [(''period'', c_period c), (''start'', c_start c), (''end'', c_end c)]
             (s\<lparr>effects := effects s @ [committed c]\<rparr>))\<lparr>zooming := Null\<rparr>)"
  by (simp add: handleChartFinished_def call_zooming_def committed_def)

lemma finished_idle: "\<forall>c. zooming s \<noteq> Function c \<Longrightarrow> handleChartFinished lib s = Inr s"
  by (simp add: handleChartFinished_def split: slot.splits)

lemma finished_raises:
  "(\<exists>e. handleChartFinished lib s = Inl e) \<longleftrightarrow>
     (\<exists>c. zooming s = Function c) \<and> \<not> actions (props s)"
  by (auto simp: handleChartFinished_def call_zooming_def split: slot.splits)

lemma datazoom_raises:
  "(\<exists>e. handleDataZoom lib option s = Inl e) \<longleftrightarrow> \<not> cleared option \<and> \<not> zoom_in option"
proof (cases "cleared option")
  case True
  then show ?thesis by (simp add: back_step)
next
  case False
  show ?thesis
  proof (cases "zoom_in option")
    case True
    then obtain r where "handleDataZoom lib option s = Inr (setPeriod lib r True s)"
      using zoom_in_setPeriod by blast
    with True show ?thesis by simp
  next
    case no: False
    with False show ?thesis by (simp add: malformed_raises)
  qed
qed

subsection \<open>Sequences of events\<close>

lemma run_append: "run lib (xs @ ys) s = run lib ys (run lib xs s)"
  by (induction xs arbitrary: s) simp_all

lemma run_finished_again:
  "run lib (replicate n Finished) (after lib Finished s) = after lib Finished s"
  by (induction n) (simp_all add: finished_twice)

lemma run_history_grows:
  "list_all no_undo evs \<Longrightarrow>
   \<exists>ext. history (run lib evs s) = history s @ ext \<and>
         length ext = length (filter is_zoom_in evs)"
proof (induction evs arbitrary: s)
  case Nil
  then show ?case by simp
next
  case (Cons ev evs)
  then have ev: "no_undo ev" and rest: "list_all no_undo evs" by simp_all
  from Cons.IH [OF rest, where s = "after lib ev s"] obtain ext where
    ext: "history (run lib evs (after lib ev s)) = history (after lib ev s) @ ext"
         "length ext = length (filter is_zoom_in evs)" by blast
  show ?case
    using ext after_no_undo_history [OF ev, of lib s] by (cases "is_zoom_in ev") simp_all
qed

lemma rev_last_butlast: "h \<noteq> [] \<Longrightarrow> rev h = last h # rev (butlast h)"
  by (induction h rule: rev_induct) simp_all

lemma backs:
  "cleared option \<Longrightarrow> k \<le> length (history s) \<Longrightarrow>
   history (run lib (replicate k (Datazoom option)) s) = take (length (history s) - k) (history s) \<and>
   props (run lib (replicate k (Datazoom option)) s) = props s \<and>
   currentPeriod (run lib (replicate k (Datazoom option)) s) = currentPeriod s \<and>
   effects (run lib (replicate k (Datazoom option)) s) =
     effects s @ (if onZoom (props s) then map (notified lib) (take k (rev (history s))) else []) \<and>
   (0 < k \<longrightarrow> zooming (run lib (replicate k (Datazoom option)) s) =
                 Function (pending_for lib (rev (history s) ! (k - 1))))"
proof (induction k arbitrary: s)
  case 0
  then show ?case by simp
next
  case (Suc k)
  let ?h = "history s"
  let ?s1 = "setPeriod lib (last ?h) False (s\<lparr>history := butlast ?h\<rparr>)"
  from Suc.prems have ne: "?h \<noteq> []" by auto
  have step: "after lib (Datazoom option) s = ?s1"
    using Suc.prems(1) ne by (simp add: after_back)
  have h1: "history ?s1 = butlast ?h" by (simp add: setPeriod_history)
  have p1: "props ?s1 = props s" by (simp add: setPeriod_props)
  have c1: "currentPeriod ?s1 = currentPeriod s" by (simp add: setPeriod_currentPeriod)
  have e1: "effects ?s1 = effects s @ (if onZoom (props s) then [notified lib (last ?h)] else [])"
    by (simp add: setPeriod_effects)
  have z1: "zooming ?s1 = Function (pending_for lib (last ?h))"
    by (simp add: setPeriod_zooming)
  have k: "k \<le> length (history ?s1)" using Suc.prems(2) h1 by simp
  note IH = Suc.IH [OF Suc.prems(1) k]
  have rv: "rev ?h = last ?h # rev (butlast ?h)" using ne by (rule rev_last_butlast)
  have t: "take (length (butlast ?h) - k) (butlast ?h) = take (length ?h - Suc k) ?h"
    using ne by (simp add: take_butlast)
  have tk: "take (Suc k) (rev ?h) = last ?h # take k (rev (butlast ?h))"
    by (subst rv) simp
  have nth0: "rev ?h ! 0 = last ?h"
    by (subst rv) simp
  have nthS: "\<And>j. rev ?h ! Suc j = rev (butlast ?h) ! j"
    by (subst rv) simp
  have hist: "history (run lib (replicate (Suc k) (Datazoom option)) s) = take (length ?h - Suc k) ?h"
    using IH step h1 t by simp
  have prps: "props (run lib (replicate (Suc k) (Datazoom option)) s) = props s"
    using IH step p1 by simp
  have cur: "currentPeriod (run lib (replicate (Suc k) (Datazoom option)) s) = currentPeriod s"
    using IH step c1 by simp
  have eff: "effects (run lib (replicate (Suc k) (Datazoom option)) s) =
     effects s @ (if onZoom (props s) then map (notified lib) (take (Suc k) (rev ?h)) else [])"
    using IH step h1 p1 e1 tk by simp
  have zoom: "zooming (run lib (replicate (Suc k) (Datazoom option)) s) =
                 Function (pending_for lib (rev ?h ! k))"
  proof (cases k)
    case 0
    then show ?thesis using step z1 nth0 by simp
  next
    case (Suc j)
    then show ?thesis using IH step h1 nthS by simp
  qed
  show ?case using hist prps cur eff zoom by simp
qed

lemma backs_exhausted:
  assumes "cleared option"
  shows "run lib (replicate (Suc (length (history s))) (Datazoom option)) s =
         run lib (replicate (length (history s)) (Datazoom option)) s"
proof -
  let ?n = "length (history s)"
  let ?t = "run lib (replicate ?n (Datazoom option)) s"
  have "history ?t = []" using backs [OF assms, of ?n s lib] by simp
  then have "after lib (Datazoom option) ?t = ?t" using assms by (simp add: after_back)
  moreover have "replicate (Suc ?n) (Datazoom option) = replicate ?n (Datazoom option) @ [Datazoom option]"
    by (simp add: replicate_append_same)
  ultimately show ?thesis by (simp add: run_append)
qed

subsection \<open>The comparison of the render gate\<close>

lemma customized_comparison:
  "(case dateComparator v w of Some res \<Rightarrow> res | None \<Rightarrow> baseIsEqual v w) = spec_date_aware_equal v w"
  by (cases v; cases w) (auto simp: spec_date_aware_equal_def)

subsection \<open>Restore\<close>

text \<open>
  Claim C1: \<^verbatim>\<open>handleZoomRestore\<close> does nothing on an empty history. After a zoom-in on an
  empty history, followed by any events that are neither a restore nor a step back (so
  after N zoom-ins, N at least 1, with \<^verbatim>\<open>finished\<close> events and props updates in
  between), the history has N entries, the first of them is the snapshot that was
  current before the first zoom-in, and \<^verbatim>\<open>handleZoomRestore\<close> calls \<^verbatim>\<open>setPeriod\<close> on that
  first entry without pushing and leaves the history empty.
\<close>

theorem handleZoomRestore_oldest:
  assumes fresh: "history s = []"
      and first: "is_zoom_in z"
      and rest: "list_all no_undo rest"
  shows "(history s' = [] \<longrightarrow> handleZoomRestore lib s' = s') \<and>
         length (history (run lib (z # rest) s)) = Suc (length (filter is_zoom_in rest)) \<and>
         hd (history (run lib (z # rest) s)) = currentPeriod s \<and>
         handleZoomRestore lib (run lib (z # rest) s) =
           (setPeriod lib (currentPeriod s) False (run lib (z # rest) s))\<lparr>history := []\<rparr> \<and>
         history (handleZoomRestore lib (run lib (z # rest) s)) = [] \<and>
         zooming (handleZoomRestore lib (run lib (z # rest) s)) =
           Function (pending_for lib (currentPeriod s)) \<and>
         effects (handleZoomRestore lib (run lib (z # rest) s)) =
           effects (run lib (z # rest) s) @
           (if onZoom (props (run lib (z # rest) s)) then [notified lib (currentPeriod s)] else [])"
proof -
  let ?t = "run lib (z # rest) s"
  have "no_undo z" using first zoom_in_not_cleared by (cases z) auto
  then have one: "history (after lib z s) = [currentPeriod s]"
    using first fresh by (simp add: after_no_undo_history)
  from run_history_grows [OF rest, where lib = lib and s = "after lib z s"] obtain ext where
    ext: "history ?t = history (after lib z s) @ ext" "length ext = length (filter is_zoom_in rest)"
    by auto
  have hist: "history ?t = currentPeriod s # ext" using ext(1) one by simp
  have restore: "handleZoomRestore lib ?t =
      (setPeriod lib (currentPeriod s) False ?t)\<lparr>history := []\<rparr>"
    using hist by (simp add: handleZoomRestore_def)
  have noop: "history s' = [] \<longrightarrow> handleZoomRestore lib s' = s'"
    by (simp add: handleZoomRestore_def)
  have len: "length (history ?t) = Suc (length (filter is_zoom_in rest))"
    using hist ext(2) by simp
  have hd: "hd (history ?t) = currentPeriod s" using hist by simp
  have z: "zooming (handleZoomRestore lib ?t) = Function (pending_for lib (currentPeriod s))"
    unfolding restore by (simp add: setPeriod_zooming)
  have e: "effects (handleZoomRestore lib ?t) =
      effects ?t @ (if onZoom (props ?t) then [notified lib (currentPeriod s)] else [])"
    unfolding restore by (simp add: setPeriod_effects)
  have h: "history (handleZoomRestore lib ?t) = []"
    unfolding restore by simp
  from noop len hd restore h z e show ?thesis by blast
qed

theorem handleZoomRestore_oldest_witness:
  "history (constructor utc_lib daily_props) = [] \<and>
   is_zoom_in (Datazoom select_days_1_2) \<and>
   list_all no_undo [Finished, Props zoomed_props, Datazoom select_day_2] \<and>
   handleZoomRestore utc_lib (constructor utc_lib daily_props) = constructor utc_lib daily_props \<and>
   history (run utc_lib [Datazoom select_days_1_2, Finished, Props zoomed_props, Datazoom select_day_2]
              (constructor utc_lib daily_props)) =
     [\<lparr>period = JString ''14d'', start = JNull, end' = JNull\<rparr>,
      \<lparr>period = JNull, start = JString ''2019-01-02T00:00:00'',
       end' = JString ''2019-01-03T23:59:59''\<rparr>] \<and>
   zooming (handleZoomRestore utc_lib
              (run utc_lib [Datazoom select_days_1_2, Finished, Props zoomed_props, Datazoom select_day_2]
                 (constructor utc_lib daily_props))) =
     Function \<lparr>c_period = JString ''14d'', c_start = JNull, c_end = JNull,
               c_startFormatted = JNull, c_endFormatted = JNull\<rparr> \<and>
   history (handleZoomRestore utc_lib
              (run utc_lib [Datazoom select_days_1_2, Finished, Props zoomed_props, Datazoom select_day_2]
                 (constructor utc_lib daily_props))) = []"
proof -
  define s0 where "s0 = constructor utc_lib daily_props"
  define t where "t = run utc_lib [Datazoom select_days_1_2, Finished, Props zoomed_props, Datazoom select_day_2] s0"
  have h1: "history s0 = []" unfolding s0_def by code_simp
  have h2: "is_zoom_in (Datazoom select_days_1_2)" by code_simp
  have h3: "list_all no_undo [Finished, Props zoomed_props, Datazoom select_day_2]" by code_simp
  have hist: "history t =
     [\<lparr>period = JString ''14d'', start = JNull, end' = JNull\<rparr>,
      \<lparr>period = JNull, start = JString ''2019-01-02T00:00:00'',
       end' = JString ''2019-01-03T23:59:59''\<rparr>]"
    unfolding t_def s0_def by code_simp
  have pf: "pending_for utc_lib (currentPeriod s0) =
     \<lparr>c_period = JString ''14d'', c_start = JNull, c_end = JNull,
      c_startFormatted = JNull, c_endFormatted = JNull\<rparr>"
    unfolding s0_def by code_simp
  note T = handleZoomRestore_oldest [OF h1 h2 h3, where lib = utc_lib and s' = s0, folded t_def]
  have noop: "handleZoomRestore utc_lib s0 = s0" using T h1 by blast
  have z: "zooming (handleZoomRestore utc_lib t) = Function (pending_for utc_lib (currentPeriod s0))"
    using T by blast
  have e: "history (handleZoomRestore utc_lib t) = []" using T by blast
  from h1 h2 h3 noop hist z e show ?thesis
    unfolding pf unfolding t_def s0_def by blast
qed

subsection \<open>The deferred commit\<close>

text \<open>
  Claim C2: the slot holds one closure at most, the one of the latest \<^verbatim>\<open>setPeriod\<close>. After
  two calls of \<^verbatim>\<open>setPeriod\<close> with no \<^verbatim>\<open>finished\<close> event between them the slot holds the
  closure of the second range and no mutation has been made; the next \<^verbatim>\<open>finished\<close> event
  makes one call of \<^verbatim>\<open>updateParams\<close>, for the second range, and clears the slot; further
  \<^verbatim>\<open>finished\<close> events make none. In any state, an event makes a call of \<^verbatim>\<open>updateParams\<close>
  only when it is \<^verbatim>\<open>finished\<close>, and then for the closure in the slot.
\<close>

theorem setPeriod_twice_commits_latest:
  "zooming (setPeriod lib r2 h2 (setPeriod lib r1 h1 s)) = Function (pending_for lib r2) \<and>
   commits (setPeriod lib r2 h2 (setPeriod lib r1 h1 s)) = commits s \<and>
   commits (after lib Finished (setPeriod lib r2 h2 (setPeriod lib r1 h1 s))) =
     commits s @
     (if actions (props s)
      then [UpdateParams (period r2) (getDate lib (start r2)) (getDate lib (end' r2)) ''1'']
      else []) \<and>
   (actions (props s) \<longrightarrow>
      zooming (after lib Finished (setPeriod lib r2 h2 (setPeriod lib r1 h1 s))) = Null) \<and>
   run lib (replicate n Finished)
       (after lib Finished (setPeriod lib r2 h2 (setPeriod lib r1 h1 s))) =
     after lib Finished (setPeriod lib r2 h2 (setPeriod lib r1 h1 s)) \<and>
   (\<forall>ev t. commits (after lib ev t) =
      commits t @
      (case ev of
         Finished \<Rightarrow>
           (case zooming t of
              Function c \<Rightarrow> if actions (props t) then [committed c] else []
            | _ \<Rightarrow> [])
       | _ \<Rightarrow> []))"
proof -
  let ?s2 = "setPeriod lib r2 h2 (setPeriod lib r1 h1 s)"
  have z: "zooming ?s2 = Function (pending_for lib r2)" by (rule setPeriod_zooming)
  have c: "commits ?s2 = commits s" by (simp add: setPeriod_commits)
  have p: "props ?s2 = props s" by (simp add: setPeriod_props)
  have f: "commits (after lib Finished ?s2) =
     commits s @
     (if actions (props s)
      then [UpdateParams (period r2) (getDate lib (start r2)) (getDate lib (end' r2)) ''1'']
      else [])"
    by (simp add: after_commits z c p committed_def pending_for_def)
  have n: "actions (props s) \<longrightarrow> zooming (after lib Finished ?s2) = Null"
    by (simp add: after_finished z p)
  have r: "run lib (replicate n Finished) (after lib Finished ?s2) = after lib Finished ?s2"
    by (rule run_finished_again)
  from z c f n r after_commits show ?thesis by blast
qed

theorem setPeriod_twice_commits_latest_witness:
  "run utc_lib [Datazoom select_days_1_2, Datazoom select_day_2] (constructor utc_lib daily_props) =
     setPeriod utc_lib
       \<lparr>period = JNull, start = JMoment 1546473600000, end' = JMoment 1546559999000\<rparr> True
       (setPeriod utc_lib
          \<lparr>period = JNull, start = JMoment 1546387200000, end' = JMoment 1546559999000\<rparr> True
          (constructor utc_lib daily_props)) \<and>
   commits (run utc_lib [Datazoom select_days_1_2, Datazoom select_day_2]
              (constructor utc_lib daily_props)) = [] \<and>
   commits (run utc_lib [Datazoom select_days_1_2, Datazoom select_day_2, Finished]
              (constructor utc_lib daily_props)) =
     [UpdateParams JNull (JString ''2019-01-03T00:00:00'') (JString ''2019-01-03T23:59:59'') ''1''] \<and>
   zooming (run utc_lib [Datazoom select_days_1_2, Datazoom select_day_2, Finished]
              (constructor utc_lib daily_props)) = Null \<and>
   commits (run utc_lib [Datazoom select_days_1_2, Datazoom select_day_2, Finished, Finished, Finished]
              (constructor utc_lib daily_props)) =
     [UpdateParams JNull (JString ''2019-01-03T00:00:00'') (JString ''2019-01-03T23:59:59'') ''1'']"
proof -
  define s0 where "s0 = constructor utc_lib daily_props"
  define r1 where "r1 = \<lparr>period = JNull, start = JMoment 1546387200000, end' = JMoment 1546559999000\<rparr>"
  define r2 where "r2 = \<lparr>period = JNull, start = JMoment 1546473600000, end' = JMoment 1546559999000\<rparr>"
  define s2 where "s2 = setPeriod utc_lib r2 True (setPeriod utc_lib r1 True s0)"
  have two: "run utc_lib [Datazoom select_days_1_2, Datazoom select_day_2] s0 = s2"
    unfolding s0_def s2_def r1_def r2_def by code_simp
  have c0: "commits s0 = []" unfolding s0_def by code_simp
  have a0: "actions (props s0)" unfolding s0_def by code_simp
  have u: "UpdateParams (period r2) (getDate utc_lib (start r2)) (getDate utc_lib (end' r2)) ''1'' =
           UpdateParams JNull (JString ''2019-01-03T00:00:00'') (JString ''2019-01-03T23:59:59'') ''1''"
    unfolding r2_def by code_simp
  note T = setPeriod_twice_commits_latest [of utc_lib r2 True r1 True s0 "Suc (Suc 0)", folded s2_def]
  note T2 = T [THEN conjunct2, THEN conjunct1]
  note T3 = T [THEN conjunct2, THEN conjunct2, THEN conjunct1]
  note T5 = T [THEN conjunct2, THEN conjunct2, THEN conjunct2, THEN conjunct2, THEN conjunct1]
  have k0: "commits s2 = []" using T2 c0 by simp
  have k1: "commits (after utc_lib Finished s2) =
     [UpdateParams JNull (JString ''2019-01-03T00:00:00'') (JString ''2019-01-03T23:59:59'') ''1'']"
    using T3 c0 a0 u by simp
  have z: "zooming (after utc_lib Finished s2) = Null" using T a0 by blast
  have again: "run utc_lib [Finished, Finished] (after utc_lib Finished s2) = after utc_lib Finished s2"
    using T5 by simp
  have e1: "run utc_lib [Datazoom select_days_1_2, Datazoom select_day_2, Finished] s0 =
            after utc_lib Finished s2"
    using two by simp
  have e2: "run utc_lib [Datazoom select_days_1_2, Datazoom select_day_2, Finished, Finished, Finished] s0 =
            after utc_lib Finished s2"
    using two again by simp
  from two k0 k1 z show ?thesis
    unfolding e1 [unfolded s0_def] e2 [unfolded s0_def] two [unfolded s0_def]
    unfolding s2_def r1_def r2_def s0_def by blast
qed

text \<open>
  Claim C3: \<^verbatim>\<open>handleChartFinished\<close> with a closure in the slot calls it once (one call of
  \<^verbatim>\<open>updateParams\<close>, then the snapshot of the committed range) and sets the slot to
  \<^verbatim>\<open>null\<close>; with no closure in the slot it changes nothing. So a second \<^verbatim>\<open>finished\<close> event
  right after a first changes nothing, and two in a row make at most one call of
  \<^verbatim>\<open>updateParams\<close>.
\<close>

theorem handleChartFinished_once:
  "(zooming s = Function c \<and> actions (props s) \<longrightarrow>
      handleChartFinished lib s =
        Inr ((saveCurrentPeriod lib
                [(''period'', c_period c), (''start'', c_start c), (''end'', c_end c)]
                (s\<lparr>effects := effects s @
                     [UpdateParams (c_period c) (c_startFormatted c) (c_endFormatted c) ''1'']\<rparr>))
             \<lparr>zooming := Null\<rparr>)) \<and>
   ((\<forall>c. zooming s \<noteq> Function c) \<longrightarrow> handleChartFinished lib s = Inr s) \<and>
   after lib Finished (after lib Finished s) = after lib Finished s \<and>
   length (commits (after lib Finished (after lib Finished s))) \<le> Suc (length (commits s))"
proof -
  have "length (commits (after lib Finished s)) \<le> Suc (length (commits s))"
    by (simp add: after_commits split: slot.splits)
  then show ?thesis
    using finished_pending [of s c lib] finished_idle [of s lib] finished_twice [of lib s]
    by (simp add: committed_def)
qed

theorem handleChartFinished_once_witness:
  "handleChartFinished utc_lib (constructor utc_lib daily_props) =
     Inr (constructor utc_lib daily_props) \<and>
   handleChartFinished utc_lib
     (after utc_lib (Datazoom select_days_1_2) (constructor utc_lib daily_props)) =
     Inr \<lparr>props = daily_props,
          history = [\<lparr>period = JString ''14d'', start = JNull, end' = JNull\<rparr>],
          currentPeriod = \<lparr>period = JNull, start = JString ''2019-01-02T00:00:00'',
                           end' = JString ''2019-01-03T23:59:59''\<rparr>,
          zooming = Null,
          effects = [OnZoom \<lparr>period = JNull, start = JString ''2019-01-02T00:00:00'',
                             end' = JString ''2019-01-03T23:59:59''\<rparr>,
                     UpdateParams JNull (JString ''2019-01-02T00:00:00'')
                       (JString ''2019-01-03T23:59:59'') ''1'']\<rparr> \<and>
   commits (run utc_lib [Datazoom select_days_1_2, Finished, Finished]
              (constructor utc_lib daily_props)) =
     [UpdateParams JNull (JString ''2019-01-02T00:00:00'') (JString ''2019-01-03T23:59:59'') ''1'']"
proof -
  define s0 where "s0 = constructor utc_lib daily_props"
  define s1 where "s1 = after utc_lib (Datazoom select_days_1_2) s0"
  define c where "c = \<lparr>c_period = JNull, c_start = JMoment 1546387200000,
                       c_end = JMoment 1546559999000,
                       c_startFormatted = JString ''2019-01-02T00:00:00'',
                       c_endFormatted = JString ''2019-01-03T23:59:59''\<rparr>"
  have idle: "\<forall>c. zooming s0 \<noteq> Function c"
  proof -
    have "zooming s0 = Undefined" unfolding s0_def by code_simp
    then show ?thesis by simp
  qed
  have pend: "zooming s1 = Function c \<and> actions (props s1)"
    unfolding s1_def s0_def c_def by code_simp
  have val: "(saveCurrentPeriod utc_lib
                [(''period'', c_period c), (''start'', c_start c), (''end'', c_end c)]
                (s1\<lparr>effects := effects s1 @
                     [UpdateParams (c_period c) (c_startFormatted c) (c_endFormatted c) ''1'']\<rparr>))
             \<lparr>zooming := Null\<rparr> =
     \<lparr>props = daily_props,
      history = [\<lparr>period = JString ''14d'', start = JNull, end' = JNull\<rparr>],
      currentPeriod = \<lparr>period = JNull, start = JString ''2019-01-02T00:00:00'',
                       end' = JString ''2019-01-03T23:59:59''\<rparr>,
      zooming = Null,
      effects = [OnZoom \<lparr>period = JNull, start = JString ''2019-01-02T00:00:00'',
                         end' = JString ''2019-01-03T23:59:59''\<rparr>,
                 UpdateParams JNull (JString ''2019-01-02T00:00:00'')
                   (JString ''2019-01-03T23:59:59'') ''1'']\<rparr>"
    unfolding s1_def s0_def c_def by code_simp
  have one: "commits (after utc_lib Finished s1) =
     [UpdateParams JNull (JString ''2019-01-02T00:00:00'') (JString ''2019-01-03T23:59:59'') ''1'']"
    unfolding s1_def s0_def by code_simp
  have w0: "handleChartFinished utc_lib s0 = Inr s0"
    using handleChartFinished_once [of s0 c utc_lib] idle by blast
  note T = handleChartFinished_once [of s1 c utc_lib, unfolded val]
  have w1: "handleChartFinished utc_lib s1 =
     Inr \<lparr>props = daily_props,
          history = [\<lparr>period = JString ''14d'', start = JNull, end' = JNull\<rparr>],
          currentPeriod = \<lparr>period = JNull, start = JString ''2019-01-02T00:00:00'',
                           end' = JString ''2019-01-03T23:59:59''\<rparr>,
          zooming = Null,
          effects = [OnZoom \<lparr>period = JNull, start = JString ''2019-01-02T00:00:00'',
                             end' = JString ''2019-01-03T23:59:59''\<rparr>,
                     UpdateParams JNull (JString ''2019-01-02T00:00:00'')
                       (JString ''2019-01-03T23:59:59'') ''1'']\<rparr>"
    using T pend by blast
  have twice: "after utc_lib Finished (after utc_lib Finished s1) = after utc_lib Finished s1"
    using T by blast
  have w2: "commits (run utc_lib [Datazoom select_days_1_2, Finished, Finished] s0) =
     [UpdateParams JNull (JString ''2019-01-02T00:00:00'') (JString ''2019-01-03T23:59:59'') ''1'']"
    using twice one by (simp add: s1_def)
  from w0 w1 w2 show ?thesis unfolding s1_def s0_def by blast
qed

subsection \<open>The interval selector\<close>

text \<open>
  Claim C4, as stated, fails: for two dates the selector compares the whole hours between
  them, truncated towards zero, with 24, so a range of 24h0m1s is hourly, not daily.
\<close>

theorem useHourlyInterval_24h_1s_hourly:
  "useHourlyInterval utc_lib
     \<lparr>own = [(''period'', JNull), (''start'', JDate 1 1546300800000),
             (''end'', JDate 2 1546387201000)],
      onZoom = True, actions = True\<rparr> \<and>
   \<not> spec_useHourlyInterval
     \<lparr>own = [(''period'', JNull), (''start'', JDate 1 1546300800000),
             (''end'', JDate 2 1546387201000)],
      onZoom = True, actions = True\<rparr>"
  by code_simp

text \<open>
  Claim C4, amended: the selector is hourly for a period string that ends in \<^verbatim>\<open>h\<close> or is
  \<^verbatim>\<open>1d\<close>; when the period is not a string and start and end are dates, it is hourly
  exactly when end minus start is less than 25 hours (the truncated whole hours are at
  most 24), so exactly 24 hours is hourly and so is 24h0m1s.
\<close>

theorem useHourlyInterval_cases:
  "(getprop (own p) ''period'' = JString q \<longrightarrow>
      useHourlyInterval lib p = (endsWith q ''h'' \<or> q = ''1d'')) \<and>
   ((\<forall>q. getprop (own p) ''period'' \<noteq> JString q) \<and>
    getprop (own p) ''start'' = JDate r1 t1 \<and> getprop (own p) ''end'' = JDate r2 t2 \<longrightarrow>
      useHourlyInterval lib p = (t2 - t1 < 25 * 3600000))"
proof (intro conjI impI)
  assume "getprop (own p) ''period'' = JString q"
  then show "useHourlyInterval lib p = (endsWith q ''h'' \<or> q = ''1d'')"
    by (simp add: useHourlyInterval_def)
next
  assume a: "(\<forall>q. getprop (own p) ''period'' \<noteq> JString q) \<and>
    getprop (own p) ''start'' = JDate r1 t1 \<and> getprop (own p) ''end'' = JDate r2 t2"
  have "useHourlyInterval lib p =
          (case diff_hours (Some t2) (Some t1) of None \<Rightarrow> False | Some d \<Rightarrow> d \<le> 24)"
    using a by (cases "getprop (own p) ''period''") (simp_all add: useHourlyInterval_def)
  also have "\<dots> = (t2 - t1 < 25 * 3600000)"
    by (auto simp: diff_hours_def)
  finally show "useHourlyInterval lib p = (t2 - t1 < 25 * 3600000)" .
qed

theorem useHourlyInterval_cases_witness:
  "useHourlyInterval utc_lib hourly_props \<and>
   \<not> useHourlyInterval utc_lib daily_props \<and>
   useHourlyInterval utc_lib
     \<lparr>own = [(''period'', JNull), (''start'', JDate 1 1546300800000),
             (''end'', JDate 2 1546387200000)],
      onZoom = True, actions = True\<rparr> \<and>
   useHourlyInterval utc_lib
     \<lparr>own = [(''period'', JNull), (''start'', JDate 1 1546300800000),
             (''end'', JDate 2 1546387201000)],
      onZoom = True, actions = True\<rparr> \<and>
   \<not> useHourlyInterval utc_lib
     \<lparr>own = [(''period'', JNull), (''start'', JDate 1 1546300800000),
             (''end'', JDate 2 1546390800000)],
      onZoom = True, actions = True\<rparr>"
proof -
  let ?abs = "\<lambda>t. \<lparr>own = [(''period'', JNull), (''start'', JDate 1 1546300800000),
                           (''end'', JDate 2 t)], onZoom = True, actions = True\<rparr>"
  have h: "getprop (own hourly_props) ''period'' = JString ''24h''" by code_simp
  have d: "getprop (own daily_props) ''period'' = JString ''14d''" by code_simp
  have e1: "endsWith ''24h'' ''h''" by code_simp
  have e2: "\<not> (endsWith ''14d'' ''h'' \<or> ''14d'' = ''1d'')" by code_simp
  have abs: "\<And>t. (\<forall>q. getprop (own (?abs t)) ''period'' \<noteq> JString q) \<and>
      getprop (own (?abs t)) ''start'' = JDate 1 1546300800000 \<and>
      getprop (own (?abs t)) ''end'' = JDate 2 t"
    by (simp add: getprop_def)
  have c1: "useHourlyInterval utc_lib hourly_props"
    using useHourlyInterval_cases [of hourly_props "''24h''" utc_lib] h e1 by blast
  have c2: "\<not> useHourlyInterval utc_lib daily_props"
    using useHourlyInterval_cases [of daily_props "''14d''" utc_lib] d e2 by blast
  have c3: "useHourlyInterval utc_lib (?abs 1546387200000)"
    using useHourlyInterval_cases [of "?abs 1546387200000" _ utc_lib 1 1546300800000 2 1546387200000]
      abs [of 1546387200000] by simp
  have c4: "useHourlyInterval utc_lib (?abs 1546387201000)"
    using useHourlyInterval_cases [of "?abs 1546387201000" _ utc_lib 1 1546300800000 2 1546387201000]
      abs [of 1546387201000] by simp
  have c5: "\<not> useHourlyInterval utc_lib (?abs 1546390800000)"
    using useHourlyInterval_cases [of "?abs 1546390800000" _ utc_lib 1 1546300800000 2 1546390800000]
      abs [of 1546390800000] by simp
  from c1 c2 c3 c4 c5 show ?thesis by simp
qed

subsection \<open>Zoom in\<close>

text \<open>
  Claim C5: on a datazoom whose two range markers are indices of the first series' data,
  \<^verbatim>\<open>handleDataZoom\<close> calls \<^verbatim>\<open>setPeriod\<close> with \<^verbatim>\<open>saveHistory = true\<close> on the range with period
  \<^verbatim>\<open>null\<close>, start the timestamp at \<^verbatim>\<open>rangeStart\<close> and end the timestamp at \<^verbatim>\<open>rangeEnd\<close> plus
  one hour when \<^verbatim>\<open>useHourlyInterval\<close> holds, plus one day otherwise, minus one second; the
  snapshot current before the call is pushed on the history.
\<close>

theorem handleDataZoom_zoom_in:
  assumes "xAxis option = axis # axes"
      and "series option = firstSeries # others"
      and "rangeStart axis = MNumber i" and "rangeEnd axis = MNumber j"
      and "0 \<le> i" and "i < int (length (data firstSeries))"
      and "0 \<le> j" and "j < int (length (data firstSeries))"
  shows "handleDataZoom lib option s =
           Inr (setPeriod lib
                  \<lparr>period = JNull,
                   start = JMoment (fst (data firstSeries ! nat i)),
                   end' = JMoment (fst (data firstSeries ! nat j)
                            + (if useHourlyInterval lib (props s) then 3600000 else 86400000)
                            - 1000)\<rparr>
                  True s) \<and>
         history (after lib (Datazoom option) s) = history s @ [currentPeriod s]"
proof -
  have call: "handleDataZoom lib option s =
           Inr (setPeriod lib
                  \<lparr>period = JNull,
                   start = JMoment (fst (data firstSeries ! nat i)),
                   end' = JMoment (fst (data firstSeries ! nat j)
                            + (if useHourlyInterval lib (props s) then 3600000 else 86400000)
                            - 1000)\<rparr>
                  True s)"
    using assms by (simp add: handleDataZoom_def add_def subtract_def Let_def)
  then have "history (after lib (Datazoom option) s) = history s @ [currentPeriod s]"
    by (simp add: after_def setPeriod_history)
  with call show ?thesis by blast
qed

theorem handleDataZoom_zoom_in_witness:
  "useHourlyInterval utc_lib (props (constructor utc_lib hourly_props)) \<and>
   handleDataZoom utc_lib select_hours_3_7 (constructor utc_lib hourly_props) =
     Inr (setPeriod utc_lib
            \<lparr>period = JNull, start = JMoment 1546311600000, end' = JMoment 1546329599000\<rparr>
            True (constructor utc_lib hourly_props)) \<and>
   effects (after utc_lib (Datazoom select_hours_3_7) (constructor utc_lib hourly_props)) =
     [OnZoom \<lparr>period = JNull, start = JString ''2019-01-01T03:00:00'',
              end' = JString ''2019-01-01T07:59:59''\<rparr>] \<and>
   history (after utc_lib (Datazoom select_hours_3_7) (constructor utc_lib hourly_props)) =
     [\<lparr>period = JString ''24h'', start = JNull, end' = JNull\<rparr>]"
proof -
  define s0 where "s0 = constructor utc_lib hourly_props"
  have a1: "xAxis select_hours_3_7 = \<lparr>rangeStart = MNumber 3, rangeEnd = MNumber 7\<rparr> # []"
    by (simp add: select_hours_3_7_def)
  have a2: "series select_hours_3_7 = ten_hours # []"
    by (simp add: select_hours_3_7_def)
  have a3: "rangeStart \<lparr>rangeStart = MNumber 3, rangeEnd = MNumber 7\<rparr> = MNumber 3" by simp
  have a4: "rangeEnd \<lparr>rangeStart = MNumber 3, rangeEnd = MNumber 7\<rparr> = MNumber 7" by simp
  have a5: "(0::int) \<le> 3" and a7: "(0::int) \<le> 7" by simp_all
  have a6: "3 < int (length (data ten_hours))" and a8: "7 < int (length (data ten_hours))"
    by (simp_all add: ten_hours_def)
  have hourly: "useHourlyInterval utc_lib (props s0)" unfolding s0_def by code_simp
  have v: "\<lparr>period = JNull, start = JMoment (fst (data ten_hours ! nat 3)),
            end' = JMoment (fst (data ten_hours ! nat 7)
                     + (if useHourlyInterval utc_lib (props s0) then 3600000 else 86400000)
                     - 1000)\<rparr> =
           \<lparr>period = JNull, start = JMoment 1546311600000, end' = JMoment 1546329599000\<rparr>"
    unfolding s0_def by code_simp
  have cp: "history s0 @ [currentPeriod s0] = [\<lparr>period = JString ''24h'', start = JNull, end' = JNull\<rparr>]"
    unfolding s0_def by code_simp
  have eff: "effects (after utc_lib (Datazoom select_hours_3_7) s0) =
     [OnZoom \<lparr>period = JNull, start = JString ''2019-01-01T03:00:00'',
              end' = JString ''2019-01-01T07:59:59''\<rparr>]"
    unfolding s0_def by code_simp
  note T = handleDataZoom_zoom_in [OF a1 a2 a3 a4 a5 a6 a7 a8, of utc_lib s0, unfolded v cp]
  from hourly T eff show ?thesis unfolding s0_def by blast
qed

subsection \<open>Step back\<close>

text \<open>
  Claim C6: on a datazoom with a cleared selection (both range markers \<^verbatim>\<open>null\<close>),
  \<^verbatim>\<open>handleDataZoom\<close> returns without a change when the history is empty, and otherwise
  removes the last entry of the history and calls \<^verbatim>\<open>setPeriod\<close> on it without pushing.
  So k such gestures on a history of N entries, k at most N, leave the first N - k
  entries, call \<^verbatim>\<open>onZoom\<close> (when there is one) on the last k entries from the most recent
  backwards, and leave the closure of the k-th most recent entry pending; the gesture
  after the N-th changes nothing.
\<close>

theorem handleDataZoom_step_back:
  assumes "cleared option"
  shows "handleDataZoom lib option s =
           Inr (if history s = [] then s
                else setPeriod lib (last (history s)) False
                       (s\<lparr>history := butlast (history s)\<rparr>)) \<and>
         (\<forall>k \<le> length (history s).
            history (run lib (replicate k (Datazoom option)) s) =
              take (length (history s) - k) (history s) \<and>
            effects (run lib (replicate k (Datazoom option)) s) =
              effects s @
              (if onZoom (props s) then map (notified lib) (take k (rev (history s))) else []) \<and>
            (0 < k \<longrightarrow>
               zooming (run lib (replicate k (Datazoom option)) s) =
                 Function (pending_for lib (rev (history s) ! (k - 1))))) \<and>
         run lib (replicate (Suc (length (history s))) (Datazoom option)) s =
           run lib (replicate (length (history s)) (Datazoom option)) s"
  using assms backs [OF assms, of _ s lib] backs_exhausted [OF assms, of lib s]
  by (simp add: back_step)

theorem handleDataZoom_step_back_witness:
  "cleared selection_cleared \<and>
   history (run utc_lib [Datazoom select_days_1_2, Finished, Props zoomed_props, Datazoom select_day_2, Finished]
              (constructor utc_lib daily_props)) =
     [\<lparr>period = JString ''14d'', start = JNull, end' = JNull\<rparr>,
      \<lparr>period = JNull, start = JString ''2019-01-02T00:00:00'',
       end' = JString ''2019-01-03T23:59:59''\<rparr>] \<and>
   zooming (run utc_lib [Datazoom selection_cleared]
             (run utc_lib [Datazoom select_days_1_2, Finished, Props zoomed_props, Datazoom select_day_2, Finished]
                (constructor utc_lib daily_props))) =
     Function \<lparr>c_period = JNull, c_start = JString ''2019-01-02T00:00:00'',
               c_end = JString ''2019-01-03T23:59:59'',
               c_startFormatted = JString ''2019-01-02T00:00:00'',
               c_endFormatted = JString ''2019-01-03T23:59:59''\<rparr> \<and>
   zooming (run utc_lib [Datazoom selection_cleared, Datazoom selection_cleared]
             (run utc_lib [Datazoom select_days_1_2, Finished, Props zoomed_props, Datazoom select_day_2, Finished]
                (constructor utc_lib daily_props))) =
     Function \<lparr>c_period = JString ''14d'', c_start = JNull, c_end = JNull,
               c_startFormatted = JNull, c_endFormatted = JNull\<rparr> \<and>
   history (run utc_lib [Datazoom selection_cleared, Datazoom selection_cleared]
             (run utc_lib [Datazoom select_days_1_2, Finished, Props zoomed_props, Datazoom select_day_2, Finished]
                (constructor utc_lib daily_props))) = [] \<and>
   run utc_lib [Datazoom selection_cleared, Datazoom selection_cleared, Datazoom selection_cleared]
     (run utc_lib [Datazoom select_days_1_2, Finished, Props zoomed_props, Datazoom select_day_2, Finished]
        (constructor utc_lib daily_props)) =
   run utc_lib [Datazoom selection_cleared, Datazoom selection_cleared]
     (run utc_lib [Datazoom select_days_1_2, Finished, Props zoomed_props, Datazoom select_day_2, Finished]
        (constructor utc_lib daily_props))"
proof -
  define s where "s = run utc_lib [Datazoom select_days_1_2, Finished, Props zoomed_props, Datazoom select_day_2, Finished]
                        (constructor utc_lib daily_props)"
  define b where "b = Datazoom selection_cleared"
  have c: "cleared selection_cleared" by code_simp
  have hist: "history s =
     [\<lparr>period = JString ''14d'', start = JNull, end' = JNull\<rparr>,
      \<lparr>period = JNull, start = JString ''2019-01-02T00:00:00'',
       end' = JString ''2019-01-03T23:59:59''\<rparr>]"
    unfolding s_def by code_simp
  have p1: "pending_for utc_lib
              \<lparr>period = JNull, start = JString ''2019-01-02T00:00:00'',
               end' = JString ''2019-01-03T23:59:59''\<rparr> =
            \<lparr>c_period = JNull, c_start = JString ''2019-01-02T00:00:00'',
             c_end = JString ''2019-01-03T23:59:59'',
             c_startFormatted = JString ''2019-01-02T00:00:00'',
             c_endFormatted = JString ''2019-01-03T23:59:59''\<rparr>"
    by code_simp
  have p0: "pending_for utc_lib \<lparr>period = JString ''14d'', start = JNull, end' = JNull\<rparr> =
            \<lparr>c_period = JString ''14d'', c_start = JNull, c_end = JNull,
             c_startFormatted = JNull, c_endFormatted = JNull\<rparr>"
    by code_simp
  have r1: "replicate (Suc 0) b = [b]" and r2: "replicate (Suc (Suc 0)) b = [b, b]"
    and r3: "replicate (Suc (Suc (Suc 0))) b = [b, b, b]" by simp_all
  have len: "length (history s) = Suc (Suc 0)" using hist by simp
  note T = handleDataZoom_step_back [OF c, of utc_lib s, folded b_def]
  from T have all: "\<forall>k \<le> length (history s).
            history (run utc_lib (replicate k b) s) = take (length (history s) - k) (history s) \<and>
            effects (run utc_lib (replicate k b) s) =
              effects s @
              (if onZoom (props s) then map (notified utc_lib) (take k (rev (history s))) else []) \<and>
            (0 < k \<longrightarrow>
               zooming (run utc_lib (replicate k b) s) =
                 Function (pending_for utc_lib (rev (history s) ! (k - 1))))"
    by blast
  from T have last: "run utc_lib (replicate (Suc (length (history s))) b) s =
                     run utc_lib (replicate (length (history s)) b) s"
    by blast
  have z1: "zooming (run utc_lib [b] s) =
     Function \<lparr>c_period = JNull, c_start = JString ''2019-01-02T00:00:00'',
               c_end = JString ''2019-01-03T23:59:59'',
               c_startFormatted = JString ''2019-01-02T00:00:00'',
               c_endFormatted = JString ''2019-01-03T23:59:59''\<rparr>"
    using all [rule_format, of "Suc 0"] unfolding r1 len hist by (simp add: p1)
  have z2: "zooming (run utc_lib [b, b] s) =
     Function \<lparr>c_period = JString ''14d'', c_start = JNull, c_end = JNull,
               c_startFormatted = JNull, c_endFormatted = JNull\<rparr>"
    using all [rule_format, of "Suc (Suc 0)"] unfolding r2 len hist by (simp add: p0)
  have h2: "history (run utc_lib [b, b] s) = []"
    using all [rule_format, of "Suc (Suc 0)"] unfolding r2 len hist by simp
  have n3: "run utc_lib [b, b, b] s = run utc_lib [b, b] s"
    using last unfolding len r2 r3 .
  from c hist z1 z2 h2 n3 show ?thesis unfolding s_def b_def by blast
qed

subsection \<open>The render gate\<close>

text \<open>
  Claim C7: \<^verbatim>\<open>shouldComponentUpdate\<close> returns false exactly when the zoom flag of the next
  props is set or none of \<^verbatim>\<open>period\<close>, \<^verbatim>\<open>start\<close>, \<^verbatim>\<open>end\<close> changed, two dates being equal when
  their millisecond timestamps are and other values when they are the same; in every
  other case it returns true. No other prop is read.
\<close>

theorem shouldComponentUpdate_gate:
  "shouldComponentUpdate this_props nextProps = False \<longleftrightarrow>
     truthy (getprop (own nextProps) ''zoom'') \<or>
     (spec_field_unchanged (own this_props) (own nextProps) ''period'' \<and>
      spec_field_unchanged (own this_props) (own nextProps) ''start'' \<and>
      spec_field_unchanged (own this_props) (own nextProps) ''end'')"
  unfolding shouldComponentUpdate_def isEqualWithDates_def isEqualWith_def customized_comparison
    Let_def pick_def spec_field_unchanged_def
  by (cases "map_of (own this_props) ''period''"; cases "map_of (own this_props) ''start''";
      cases "map_of (own this_props) ''end''"; cases "map_of (own nextProps) ''period''";
      cases "map_of (own nextProps) ''start''"; cases "map_of (own nextProps) ''end''")
     simp_all

theorem shouldComponentUpdate_gate_witness:
  "shouldComponentUpdate
     \<lparr>own = [(''period'', JNull), (''start'', JDate 1 1577836800000),
             (''end'', JDate 2 1577923200000), (''utc'', JString ''true'')],
      onZoom = True, actions = True\<rparr>
     \<lparr>own = [(''period'', JNull), (''start'', JDate 3 1577836800000),
             (''end'', JDate 2 1577923200000), (''utc'', JString ''false'')],
      onZoom = True, actions = True\<rparr> = False \<and>
   shouldComponentUpdate
     \<lparr>own = [(''period'', JNull), (''start'', JDate 1 1577836800000),
             (''end'', JDate 2 1577923200000), (''utc'', JString ''true'')],
      onZoom = True, actions = True\<rparr>
     \<lparr>own = [(''period'', JNull), (''start'', JDate 3 1577836801000),
             (''end'', JDate 2 1577923200000), (''utc'', JString ''true'')],
      onZoom = True, actions = True\<rparr> = True \<and>
   shouldComponentUpdate
     \<lparr>own = [(''period'', JNull), (''start'', JDate 1 1577836800000),
             (''end'', JDate 2 1577923200000), (''utc'', JString ''true'')],
      onZoom = True, actions = True\<rparr>
     \<lparr>own = [(''period'', JNull), (''start'', JDate 3 1577836801000),
             (''end'', JDate 2 1577923200000), (''zoom'', JString ''1'')],
      onZoom = True, actions = True\<rparr> = False"
proof -
  let ?cur = "\<lparr>own = [(''period'', JNull), (''start'', JDate 1 1577836800000),
             (''end'', JDate 2 1577923200000), (''utc'', JString ''true'')],
      onZoom = True, actions = True\<rparr>"
  let ?same = "\<lparr>own = [(''period'', JNull), (''start'', JDate 3 1577836800000),
             (''end'', JDate 2 1577923200000), (''utc'', JString ''false'')],
      onZoom = True, actions = True\<rparr>"
  let ?later = "\<lparr>own = [(''period'', JNull), (''start'', JDate 3 1577836801000),
             (''end'', JDate 2 1577923200000), (''utc'', JString ''true'')],
      onZoom = True, actions = True\<rparr>"
  let ?zooming = "\<lparr>own = [(''period'', JNull), (''start'', JDate 3 1577836801000),
             (''end'', JDate 2 1577923200000), (''zoom'', JString ''1'')],
      onZoom = True, actions = True\<rparr>"
  have a: "spec_field_unchanged (own ?cur) (own ?same) ''period'' \<and>
           spec_field_unchanged (own ?cur) (own ?same) ''start'' \<and>
           spec_field_unchanged (own ?cur) (own ?same) ''end''"
    by code_simp
  have b: "\<not> truthy (getprop (own ?later) ''zoom'') \<and>
           \<not> spec_field_unchanged (own ?cur) (own ?later) ''start''"
    by code_simp
  have c: "truthy (getprop (own ?zooming) ''zoom'')"
    by code_simp
  have r1: "shouldComponentUpdate ?cur ?same = False"
    using shouldComponentUpdate_gate [of ?cur ?same] a by blast
  have r2: "shouldComponentUpdate ?cur ?later = True"
    using shouldComponentUpdate_gate [of ?cur ?later] b by blast
  have r3: "shouldComponentUpdate ?cur ?zooming = False"
    using shouldComponentUpdate_gate [of ?cur ?zooming] c by blast
  from r1 r2 r3 show ?thesis by blast
qed

subsection \<open>Notification before commit\<close>

text \<open>
  Claim C8: with an \<^verbatim>\<open>onZoom\<close> prop, \<^verbatim>\<open>setPeriod\<close> calls it during the call, with the period as
  given and start and end normalised by \<^verbatim>\<open>getDate\<close>; it makes no call of \<^verbatim>\<open>updateParams\<close>
  but stores the closure, and the \<^verbatim>\<open>finished\<close> event that follows makes the call of
  \<^verbatim>\<open>updateParams\<close> with the same period and strings and \<^verbatim>\<open>zoom: '1'\<close>, after the call of
  \<^verbatim>\<open>onZoom\<close>.
\<close>

theorem setPeriod_notifies_then_commits:
  assumes "onZoom (props s)"
  shows "effects (setPeriod lib r h s) =
           effects s @
           [OnZoom \<lparr>period = period r, start = getDate lib (start r), end' = getDate lib (end' r)\<rparr>] \<and>
         commits (setPeriod lib r h s) = commits s \<and>
         zooming (setPeriod lib r h s) = Function (pending_for lib r) \<and>
         (actions (props s) \<longrightarrow>
            (\<exists>s'. handleChartFinished lib (setPeriod lib r h s) = Inr s' \<and>
                  effects s' =
                    effects s @
                    [OnZoom \<lparr>period = period r, start = getDate lib (start r),
                             end' = getDate lib (end' r)\<rparr>,
                     UpdateParams (period r) (getDate lib (start r)) (getDate lib (end' r)) ''1'']))"
proof -
  let ?s1 = "setPeriod lib r h s"
  have e: "effects ?s1 =
           effects s @
           [OnZoom \<lparr>period = period r, start = getDate lib (start r), end' = getDate lib (end' r)\<rparr>]"
    using assms by (simp add: setPeriod_effects notified_def)
  have c: "commits ?s1 = commits s" by (rule setPeriod_commits)
  have z: "zooming ?s1 = Function (pending_for lib r)" by (rule setPeriod_zooming)
  have p: "props ?s1 = props s" by (rule setPeriod_props)
  have f: "actions (props s) \<longrightarrow>
            (\<exists>s'. handleChartFinished lib ?s1 = Inr s' \<and>
                  effects s' =
                    effects s @
                    [OnZoom \<lparr>period = period r, start = getDate lib (start r),
                             end' = getDate lib (end' r)\<rparr>,
                     UpdateParams (period r) (getDate lib (start r)) (getDate lib (end' r)) ''1''])"
  proof
    assume a: "actions (props s)"
    then have "actions (props ?s1)" using p by simp
    from finished_pending [OF z this, of lib] show "\<exists>s'. handleChartFinished lib ?s1 = Inr s' \<and>
                  effects s' =
                    effects s @
                    [OnZoom \<lparr>period = period r, start = getDate lib (start r),
                             end' = getDate lib (end' r)\<rparr>,
                     UpdateParams (period r) (getDate lib (start r)) (getDate lib (end' r)) ''1'']"
      by (simp add: e saveCurrentPeriod_def committed_def pending_for_def)
  qed
  from e c z f show ?thesis by blast
qed

theorem setPeriod_notifies_then_commits_witness:
  "onZoom (props (constructor utc_lib daily_props)) \<and>
   effects (setPeriod utc_lib
              \<lparr>period = JNull, start = JMoment 1546387200000, end' = JMoment 1546559999000\<rparr> True
              (constructor utc_lib daily_props)) =
     [OnZoom \<lparr>period = JNull, start = JString ''2019-01-02T00:00:00'',
              end' = JString ''2019-01-03T23:59:59''\<rparr>] \<and>
   commits (setPeriod utc_lib
              \<lparr>period = JNull, start = JMoment 1546387200000, end' = JMoment 1546559999000\<rparr> True
              (constructor utc_lib daily_props)) = [] \<and>
   effects (after utc_lib Finished
     (setPeriod utc_lib
              \<lparr>period = JNull, start = JMoment 1546387200000, end' = JMoment 1546559999000\<rparr> True
              (constructor utc_lib daily_props))) =
     [OnZoom \<lparr>period = JNull, start = JString ''2019-01-02T00:00:00'',
              end' = JString ''2019-01-03T23:59:59''\<rparr>,
      UpdateParams JNull (JString ''2019-01-02T00:00:00'') (JString ''2019-01-03T23:59:59'') ''1'']"
proof -
  define s0 where "s0 = constructor utc_lib daily_props"
  define r where "r = \<lparr>period = JNull, start = JMoment 1546387200000, end' = JMoment 1546559999000\<rparr>"
  have h: "onZoom (props s0)" unfolding s0_def by code_simp
  have a: "actions (props s0)" unfolding s0_def by code_simp
  have e0: "effects s0 = []" and c0: "commits s0 = []" unfolding s0_def by code_simp+
  have n: "OnZoom \<lparr>period = period r, start = getDate utc_lib (start r), end' = getDate utc_lib (end' r)\<rparr> =
           OnZoom \<lparr>period = JNull, start = JString ''2019-01-02T00:00:00'',
                   end' = JString ''2019-01-03T23:59:59''\<rparr>"
    unfolding r_def by code_simp
  have u: "UpdateParams (period r) (getDate utc_lib (start r)) (getDate utc_lib (end' r)) ''1'' =
           UpdateParams JNull (JString ''2019-01-02T00:00:00'') (JString ''2019-01-03T23:59:59'') ''1''"
    unfolding r_def by code_simp
  note T = setPeriod_notifies_then_commits [OF h, of utc_lib r True, unfolded n u e0 c0 append_Nil]
  have w1: "effects (setPeriod utc_lib r True s0) =
     [OnZoom \<lparr>period = JNull, start = JString ''2019-01-02T00:00:00'',
              end' = JString ''2019-01-03T23:59:59''\<rparr>]"
    using T by blast
  have w2: "commits (setPeriod utc_lib r True s0) = []" using T by blast
  from T a obtain s' where s': "handleChartFinished utc_lib (setPeriod utc_lib r True s0) = Inr s'"
    "effects s' =
     [OnZoom \<lparr>period = JNull, start = JString ''2019-01-02T00:00:00'',
              end' = JString ''2019-01-03T23:59:59''\<rparr>,
      UpdateParams JNull (JString ''2019-01-02T00:00:00'') (JString ''2019-01-03T23:59:59'') ''1'']"
    by blast
  have w3: "effects (after utc_lib Finished (setPeriod utc_lib r True s0)) =
     [OnZoom \<lparr>period = JNull, start = JString ''2019-01-02T00:00:00'',
              end' = JString ''2019-01-03T23:59:59''\<rparr>,
      UpdateParams JNull (JString ''2019-01-02T00:00:00'') (JString ''2019-01-03T23:59:59'') ''1'']"
    using s' by (simp add: after_def)
  from h w1 w2 w3 show ?thesis unfolding s0_def r_def by blast
qed

subsection \<open>Which inputs raise\<close>

text \<open>
  Claim C9, as stated, fails: a datazoom whose axis has one range marker \<^verbatim>\<open>null\<close>, and one
  whose end marker is past the series, raise a \<^verbatim>\<open>TypeError\<close>.
\<close>

theorem handleDataZoom_malformed_raises:
  "handleDataZoom utc_lib
     \<lparr>xAxis = [\<lparr>rangeStart = MNull, rangeEnd = MNumber 1\<rparr>],
      series = [\<lparr>data = [(1546300800000, 5), (1546387200000, 7), (1546473600000, 2)]\<rparr>]\<rparr>
     (constructor utc_lib
        \<lparr>own = [(''period'', JString ''14d'')], onZoom = True, actions = True\<rparr>) =
     Inl TypeError \<and>
   handleDataZoom utc_lib
     \<lparr>xAxis = [\<lparr>rangeStart = MNumber 1, rangeEnd = MNumber 3\<rparr>],
      series = [\<lparr>data = [(1546300800000, 5), (1546387200000, 7), (1546473600000, 2)]\<rparr>]\<rparr>
     (constructor utc_lib
        \<lparr>own = [(''period'', JString ''14d'')], onZoom = True, actions = True\<rparr>) =
     Inl TypeError"
  by code_simp

text \<open>
  Claim C9, amended: an empty history and an empty slot are handled by returning without
  a change: \<^verbatim>\<open>handleZoomRestore\<close> and a props update never raise, a datazoom with a cleared
  selection never raises, and \<^verbatim>\<open>handleChartFinished\<close> raises only when a closure is in the
  slot and \<^verbatim>\<open>props.actions.updateParams\<close> cannot be called. A datazoom raises exactly when
  its selection is neither cleared nor a zoom-in: when there is no first axis, or the
  markers are not both \<^verbatim>\<open>null\<close> and there is no first series or one of the markers is not
  an index of its data.
\<close>

theorem handlers_raise_exactly:
  "((\<exists>e. handle lib ev s = Inl e) \<longleftrightarrow>
      (case ev of
         Datazoom option \<Rightarrow> \<not> cleared option \<and> \<not> zoom_in option
       | Restore \<Rightarrow> False
       | Finished \<Rightarrow> (\<exists>c. zooming s = Function c) \<and> \<not> actions (props s)
       | Props p \<Rightarrow> False)) \<and>
   (history s = [] \<longrightarrow> handle lib Restore s = Inr s) \<and>
   (history s = [] \<and> cleared option \<longrightarrow> handle lib (Datazoom option) s = Inr s) \<and>
   ((\<forall>c. zooming s \<noteq> Function c) \<longrightarrow> handle lib Finished s = Inr s)"
proof -
  have a: "(\<exists>e. handle lib ev s = Inl e) \<longleftrightarrow>
      (case ev of
         Datazoom option \<Rightarrow> \<not> cleared option \<and> \<not> zoom_in option
       | Restore \<Rightarrow> False
       | Finished \<Rightarrow> (\<exists>c. zooming s = Function c) \<and> \<not> actions (props s)
       | Props p \<Rightarrow> False)"
    by (cases ev) (simp_all add: datazoom_raises finished_raises)
  have b: "history s = [] \<longrightarrow> handle lib Restore s = Inr s"
    by (simp add: handleZoomRestore_def)
  have c: "history s = [] \<and> cleared option \<longrightarrow> handle lib (Datazoom option) s = Inr s"
    by (simp add: back_step)
  have d: "(\<forall>c. zooming s \<noteq> Function c) \<longrightarrow> handle lib Finished s = Inr s"
    by (simp add: finished_idle)
  from a b c d show ?thesis by blast
qed

theorem handlers_raise_exactly_witness:
  "handle utc_lib Restore (constructor utc_lib daily_props) = Inr (constructor utc_lib daily_props) \<and>
   handle utc_lib (Datazoom selection_cleared) (constructor utc_lib daily_props) =
     Inr (constructor utc_lib daily_props) \<and>
   handle utc_lib Finished (constructor utc_lib daily_props) = Inr (constructor utc_lib daily_props) \<and>
   (\<exists>e. handle utc_lib (Datazoom selection_half_cleared) (constructor utc_lib daily_props) = Inl e) \<and>
   (\<nexists>e. handle utc_lib (Datazoom select_days_1_2) (constructor utc_lib daily_props) = Inl e)"
proof -
  define s0 where "s0 = constructor utc_lib daily_props"
  have h: "history s0 = []" unfolding s0_def by code_simp
  have c: "cleared selection_cleared" by code_simp
  have idle: "\<forall>c. zooming s0 \<noteq> Function c"
  proof -
    have "zooming s0 = Undefined" unfolding s0_def by code_simp
    then show ?thesis by simp
  qed
  have bad: "\<not> cleared selection_half_cleared \<and> \<not> zoom_in selection_half_cleared" by code_simp
  have good: "zoom_in select_days_1_2" by code_simp
  have w1: "handle utc_lib Restore s0 = Inr s0"
    using handlers_raise_exactly [of utc_lib Restore s0 selection_cleared] h by blast
  have w2: "handle utc_lib (Datazoom selection_cleared) s0 = Inr s0"
    using handlers_raise_exactly [of utc_lib Restore s0 selection_cleared] h c by blast
  have w3: "handle utc_lib Finished s0 = Inr s0"
    using handlers_raise_exactly [of utc_lib Restore s0 selection_cleared] idle by blast
  have w4: "\<exists>e. handle utc_lib (Datazoom selection_half_cleared) s0 = Inl e"
    using handlers_raise_exactly [of utc_lib "Datazoom selection_half_cleared" s0 selection_cleared] bad
    by simp
  have w5: "\<nexists>e. handle utc_lib (Datazoom select_days_1_2) s0 = Inl e"
    using handlers_raise_exactly [of utc_lib "Datazoom select_days_1_2" s0 selection_cleared] good
    by simp
  from w1 w2 w3 w4 w5 show ?thesis unfolding s0_def by blast
qed

subsection \<open>The snapshot of an absent range\<close>

text \<open>
  Claim C10: \<^verbatim>\<open>getDate\<close> maps \<^verbatim>\<open>null\<close> and \<^verbatim>\<open>undefined\<close> to \<^verbatim>\<open>null\<close>, without a call of the
  date library, so \<^verbatim>\<open>saveCurrentPeriod\<close> on a range whose start and end are absent stores
  the snapshot with the period as given and \<^verbatim>\<open>null\<close> for start and end, and changes
  nothing else.
\<close>

theorem saveCurrentPeriod_absent_dates:
  assumes "getprop obj ''start'' = JNull \<or> getprop obj ''start'' = JUndefined"
      and "getprop obj ''end'' = JNull \<or> getprop obj ''end'' = JUndefined"
  shows "getDate lib JNull = JNull \<and> getDate lib JUndefined = JNull \<and>
         saveCurrentPeriod lib obj s =
           s\<lparr>currentPeriod := \<lparr>period = getprop obj ''period'', start = JNull, end' = JNull\<rparr>\<rparr>"
  using assms by (auto simp: saveCurrentPeriod_def getDate_def)

theorem saveCurrentPeriod_absent_dates_witness:
  "(getprop (own daily_props) ''start'' = JNull \<or>
    getprop (own daily_props) ''start'' = JUndefined) \<and>
   (getprop [(''period'', JString ''24h''), (''start'', JNull), (''end'', JNull)] ''end'' = JNull \<or>
    getprop [(''period'', JString ''24h''), (''start'', JNull), (''end'', JNull)] ''end'' = JUndefined) \<and>
   currentPeriod (constructor utc_lib daily_props) =
     \<lparr>period = JString ''14d'', start = JNull, end' = JNull\<rparr> \<and>
   currentPeriod
     (saveCurrentPeriod utc_lib [(''period'', JString ''24h''), (''start'', JNull), (''end'', JNull)]
        (constructor utc_lib daily_props)) =
     \<lparr>period = JString ''24h'', start = JNull, end' = JNull\<rparr>"
proof -
  let ?obj = "[(''period'', JString ''24h''), (''start'', JNull), (''end'', JNull)]"
  have a1: "getprop (own daily_props) ''start'' = JNull \<or>
            getprop (own daily_props) ''start'' = JUndefined" by code_simp
  have a2: "getprop (own daily_props) ''end'' = JNull \<or>
            getprop (own daily_props) ''end'' = JUndefined" by code_simp
  have b1: "getprop ?obj ''start'' = JNull \<or> getprop ?obj ''start'' = JUndefined" by code_simp
  have b2: "getprop ?obj ''end'' = JNull \<or> getprop ?obj ''end'' = JUndefined" by code_simp
  have p1: "getprop (own daily_props) ''period'' = JString ''14d''" by code_simp
  have p2: "getprop ?obj ''period'' = JString ''24h''" by code_simp
  have c1: "currentPeriod (constructor utc_lib daily_props) =
              \<lparr>period = JString ''14d'', start = JNull, end' = JNull\<rparr>"
    unfolding constructor_def
    using saveCurrentPeriod_absent_dates [OF a1 a2, of utc_lib] p1 by simp
  have c2: "currentPeriod (saveCurrentPeriod utc_lib ?obj (constructor utc_lib daily_props)) =
              \<lparr>period = JString ''24h'', start = JNull, end' = JNull\<rparr>"
    using saveCurrentPeriod_absent_dates [OF b1 b2, of utc_lib "constructor utc_lib daily_props"] p2
    by simp
  from a1 b2 c1 c2 show ?thesis by blast
qed

end
